theory Spec2Isabelle
  imports Main "HOL-Library.Sublist" "HOL-Library.Word"
begin

section \<open>The filesystem the nodes run against\<close>

text \<open>
  The nodes of this package are thin wrappers around the platform's filesystem calls
  (\<^verbatim>\<open>fs.stat\<close>, \<^verbatim>\<open>fs.readdir\<close>, \<^verbatim>\<open>fs.copyFile\<close>, ...). The calls are modelled on
  an explicit store that maps a resolved absolute path, given by its components, to the
  node found there. A directory carries the names \<^verbatim>\<open>readdir\<close> reports for it, in that
  order. Every call that Node.js lets fail returns an \<open>errno\<close> on the left.

  Symbolic links are followed where the path handed to a call names a link itself
  (at most 40 hops, then \<open>ELOOP\<close>); links in the middle of a path are outside the model.
  Write permission is not checked; read permission is.
\<close>

type_synonym path = "string list"

record meta =
  atime :: nat
  mtime :: nat
  birthtime :: nat
  readable :: bool
  writable :: bool
  executable :: bool

datatype node =
    File string meta
  | Dir "string list" meta
  | Link path
  | Special meta

datatype errno = ENOENT | EACCES | ENOTDIR | EISDIR | EEXIST | EXDEV | ENOTEMPTY | ELOOP | EINVAL

text \<open>The effects a call had on the filesystem, in the order they happened.\<close>

datatype event =
    EvMkdir path
  | EvCopyFile path path nat
  | EvUtimes path nat nat
  | EvWriteFile path string
  | EvRename path path
  | EvRenameFailed path path errno
  | EvUnlink path
  | EvRmdir path bool

record world =
  store :: "path \<Rightarrow> node option"
  now :: nat
  nowISO :: string
  cwd :: path
  device :: "path \<Rightarrow> nat"
  log :: "event list"

record stats =
  isFile :: bool
  isDirectory :: bool
  isSymbolicLink :: bool
  size :: nat
  st_atime :: nat
  st_mtime :: nat
  st_birthtime :: nat

definition dir_size :: nat where
  "dir_size = 4096"

fun stats_of :: "node \<Rightarrow> stats" where
  "stats_of (File c m) = \<lparr>isFile = True, isDirectory = False, isSymbolicLink = False,
      size = length c, st_atime = atime m, st_mtime = mtime m, st_birthtime = birthtime m\<rparr>"
| "stats_of (Dir ns m) = \<lparr>isFile = False, isDirectory = True, isSymbolicLink = False,
      size = dir_size, st_atime = atime m, st_mtime = mtime m, st_birthtime = birthtime m\<rparr>"
| "stats_of (Link t) = \<lparr>isFile = False, isDirectory = False, isSymbolicLink = True,
      size = length t, st_atime = 0, st_mtime = 0, st_birthtime = 0\<rparr>"
| "stats_of (Special m) = \<lparr>isFile = False, isDirectory = False, isSymbolicLink = False,
      size = 0, st_atime = atime m, st_mtime = mtime m, st_birthtime = birthtime m\<rparr>"

text \<open>Following the links a path names: the path of the first node that is not a link
  (which may not exist), or nothing after 40 hops.\<close>

fun follow :: "nat \<Rightarrow> (path \<Rightarrow> node option) \<Rightarrow> path \<Rightarrow> path option" where
  "follow n st p =
     (case st p of
        Some (Link t) \<Rightarrow> (case n of 0 \<Rightarrow> None | Suc k \<Rightarrow> follow k st t)
      | _ \<Rightarrow> Some p)"

declare follow.simps [simp del]

definition max_symlinks :: nat where
  "max_symlinks = 40"

definition target :: "world \<Rightarrow> path \<Rightarrow> errno + path" where
  "target w p = (case follow max_symlinks (store w) p of None \<Rightarrow> Inl ELOOP | Some q \<Rightarrow> Inr q)"

definition node_at :: "world \<Rightarrow> path \<Rightarrow> errno + node" where
  "node_at w p =
     (case target w p of
        Inl e \<Rightarrow> Inl e
      | Inr q \<Rightarrow> (case store w q of None \<Rightarrow> Inl ENOENT | Some n \<Rightarrow> Inr n))"

text \<open>\<^verbatim>\<open>fs.stat\<close> follows links, \<^verbatim>\<open>fs.lstat\<close> does not.\<close>

definition stat :: "world \<Rightarrow> path \<Rightarrow> errno + stats" where
  "stat w p = (case node_at w p of Inl e \<Rightarrow> Inl e | Inr n \<Rightarrow> Inr (stats_of n))"

definition lstat :: "world \<Rightarrow> path \<Rightarrow> errno + stats" where
  "lstat w p = (case store w p of None \<Rightarrow> Inl ENOENT | Some n \<Rightarrow> Inr (stats_of n))"

definition existsSync :: "world \<Rightarrow> path \<Rightarrow> bool" where
  "existsSync w p = (case node_at w p of Inl e \<Rightarrow> False | Inr n \<Rightarrow> True)"

definition realpath :: "world \<Rightarrow> path \<Rightarrow> errno + path" where
  "realpath w p =
     (case target w p of
        Inl e \<Rightarrow> Inl e
      | Inr q \<Rightarrow> (case store w q of None \<Rightarrow> Inl ENOENT | Some n \<Rightarrow> Inr q))"

fun node_perm :: "node \<Rightarrow> string \<Rightarrow> bool" where
  "node_perm (File c m) a =
     (if a = ''readable'' then readable m else if a = ''writable'' then writable m
      else executable m)"
| "node_perm (Dir ns m) a =
     (if a = ''readable'' then readable m else if a = ''writable'' then writable m
      else executable m)"
| "node_perm (Special m) a =
     (if a = ''readable'' then readable m else if a = ''writable'' then writable m
      else executable m)"
| "node_perm (Link t) a = False"

definition access :: "world \<Rightarrow> path \<Rightarrow> string \<Rightarrow> errno + unit" where
  "access w p a =
     (case node_at w p of
        Inl e \<Rightarrow> Inl e
      | Inr n \<Rightarrow> (if node_perm n a then Inr () else Inl EACCES))"

definition readdir :: "world \<Rightarrow> path \<Rightarrow> errno + string list" where
  "readdir w p =
     (case node_at w p of
        Inl e \<Rightarrow> Inl e
      | Inr (Dir ns m) \<Rightarrow> (if readable m then Inr ns else Inl EACCES)
      | Inr _ \<Rightarrow> Inl ENOTDIR)"

definition readFile :: "world \<Rightarrow> path \<Rightarrow> errno + string" where
  "readFile w p =
     (case node_at w p of
        Inl e \<Rightarrow> Inl e
      | Inr (File c m) \<Rightarrow> (if readable m then Inr c else Inl EACCES)
      | Inr (Dir ns m) \<Rightarrow> Inl EISDIR
      | Inr _ \<Rightarrow> Inl EINVAL)"

subsection \<open>Calls that change the filesystem\<close>

text \<open>Each returns the errno or the value and the world after the call; a failed call
  may have changed the world already (\<^verbatim>\<open>mkdir\<close> with \<^verbatim>\<open>recursive\<close>).\<close>

definition new_meta :: "world \<Rightarrow> meta" where
  "new_meta w = \<lparr>atime = now w, mtime = now w, birthtime = now w, readable = True,
     writable = True, executable = True\<rparr>"

definition put :: "world \<Rightarrow> path \<Rightarrow> node \<Rightarrow> world" where
  "put w p n = w\<lparr>store := (store w)(p \<mapsto> n)\<rparr>"

definition logged :: "world \<Rightarrow> event \<Rightarrow> world" where
  "logged w e = w\<lparr>log := log w @ [e]\<rparr>"

text \<open>Entering and removing a name in the directory that holds it.\<close>

definition add_name :: "world \<Rightarrow> path \<Rightarrow> world" where
  "add_name w p =
     (case store w (butlast p) of
        Some (Dir ns m) \<Rightarrow>
          (if p = [] then w
           else put w (butlast p)
                  (Dir (if last p \<in> set ns then ns else ns @ [last p]) (m\<lparr>mtime := now w\<rparr>)))
      | _ \<Rightarrow> w)"

definition remove_name :: "world \<Rightarrow> path \<Rightarrow> world" where
  "remove_name w p =
     (case store w (butlast p) of
        Some (Dir ns m) \<Rightarrow>
          (if p = [] then w
           else put w (butlast p) (Dir (removeAll (last p) ns) (m\<lparr>mtime := now w\<rparr>)))
      | _ \<Rightarrow> w)"

text \<open>\<^verbatim>\<open>fs.mkdir(p, {recursive: true})\<close>: walks down from the root, creating what is
  missing; a directory that is there already is no error.\<close>

fun mkdirs :: "world \<Rightarrow> path \<Rightarrow> string list \<Rightarrow> (errno + unit) \<times> world" where
  "mkdirs w cur [] = (Inr (), w)"
| "mkdirs w cur (c # cs) =
     (case store w (cur @ [c]) of
        Some (Dir ns m) \<Rightarrow> mkdirs w (cur @ [c]) cs
      | Some _ \<Rightarrow> (Inl (if cs = [] then EEXIST else ENOTDIR), w)
      | None \<Rightarrow>
          (case store w cur of
             Some (Dir ns m) \<Rightarrow>
               mkdirs (add_name (put w (cur @ [c]) (Dir [] (new_meta w))) (cur @ [c])) (cur @ [c]) cs
           | Some _ \<Rightarrow> (Inl ENOTDIR, w)
           | None \<Rightarrow> (Inl ENOENT, w)))"

definition mkdir_recursive :: "world \<Rightarrow> path \<Rightarrow> (errno + unit) \<times> world" where
  "mkdir_recursive w p =
     (case mkdirs w [] p of
        (Inl e, w') \<Rightarrow> (Inl e, w')
      | (Inr u, w') \<Rightarrow> (Inr (), logged w' (EvMkdir p)))"

text \<open>Writing a whole file: through a link to its target, over a file that is there,
  or as a new entry of an existing directory.\<close>

definition write_file :: "world \<Rightarrow> path \<Rightarrow> string \<Rightarrow> event \<Rightarrow> (errno + unit) \<times> world" where
  "write_file w p c ev =
     (case target w p of
        Inl e \<Rightarrow> (Inl e, w)
      | Inr q \<Rightarrow>
          (case store w q of
             Some (File c0 m) \<Rightarrow> (Inr (), logged (put w q (File c (m\<lparr>mtime := now w\<rparr>))) ev)
           | Some (Dir ns m) \<Rightarrow> (Inl EISDIR, w)
           | Some _ \<Rightarrow> (Inl EINVAL, w)
           | None \<Rightarrow>
               (case store w (butlast q) of
                  Some (Dir ns m) \<Rightarrow>
                    (if q = [] then (Inl EISDIR, w)
                     else (Inr (), logged (add_name (put w q (File c (new_meta w))) q) ev))
                | Some _ \<Rightarrow> (Inl ENOTDIR, w)
                | None \<Rightarrow> (Inl ENOENT, w))))"

definition copyFile :: "world \<Rightarrow> path \<Rightarrow> path \<Rightarrow> (errno + unit) \<times> world" where
  "copyFile w src dst =
     (case readFile w src of
        Inl e \<Rightarrow> (Inl e, w)
      | Inr c \<Rightarrow> write_file w dst c (EvCopyFile src dst (length c)))"

definition writeFile :: "world \<Rightarrow> path \<Rightarrow> string \<Rightarrow> (errno + unit) \<times> world" where
  "writeFile w p c = write_file w p c (EvWriteFile p c)"

fun with_times :: "node \<Rightarrow> nat \<Rightarrow> nat \<Rightarrow> node" where
  "with_times (File c m) a t = File c (m\<lparr>atime := a, mtime := t\<rparr>)"
| "with_times (Dir ns m) a t = Dir ns (m\<lparr>atime := a, mtime := t\<rparr>)"
| "with_times (Special m) a t = Special (m\<lparr>atime := a, mtime := t\<rparr>)"
| "with_times (Link q) a t = Link q"

definition utimes :: "world \<Rightarrow> path \<Rightarrow> nat \<Rightarrow> nat \<Rightarrow> (errno + unit) \<times> world" where
  "utimes w p a t =
     (case target w p of
        Inl e \<Rightarrow> (Inl e, w)
      | Inr q \<Rightarrow>
          (case store w q of
             None \<Rightarrow> (Inl ENOENT, w)
           | Some n \<Rightarrow> (Inr (), logged (put w q (with_times n a t)) (EvUtimes p a t))))"

text \<open>\<^verbatim>\<open>unlink\<close>, \<^verbatim>\<open>rmdir\<close> and \<^verbatim>\<open>rename\<close> act on the entry itself, not on what
  a link points to.\<close>

definition unlink :: "world \<Rightarrow> path \<Rightarrow> (errno + unit) \<times> world" where
  "unlink w p =
     (case store w p of
        None \<Rightarrow> (Inl ENOENT, w)
      | Some (Dir ns m) \<Rightarrow> (Inl EISDIR, w)
      | Some _ \<Rightarrow>
          (Inr (), logged (remove_name (w\<lparr>store := (store w)(p := None)\<rparr>) p) (EvUnlink p)))"

definition without_tree :: "(path \<Rightarrow> node option) \<Rightarrow> path \<Rightarrow> (path \<Rightarrow> node option)" where
  "without_tree st p = (\<lambda>k. if prefix p k then None else st k)"

definition rmdir :: "world \<Rightarrow> path \<Rightarrow> bool \<Rightarrow> (errno + unit) \<times> world" where
  "rmdir w p recursive =
     (case store w p of
        None \<Rightarrow> (Inl ENOENT, w)
      | Some (Dir ns m) \<Rightarrow>
          (if recursive then
             (Inr (), logged (remove_name (w\<lparr>store := without_tree (store w) p\<rparr>) p)
                        (EvRmdir p True))
           else if ns \<noteq> [] then (Inl ENOTEMPTY, w)
           else (Inr (), logged (remove_name (w\<lparr>store := (store w)(p := None)\<rparr>) p)
                           (EvRmdir p False)))
      | Some _ \<Rightarrow> (Inl ENOTDIR, w))"

text \<open>Why \<^verbatim>\<open>rename(src, dst)\<close> fails, if it does: a missing source, another device,
  a destination inside the source, no directory to hold the destination, or a
  destination of the wrong kind.\<close>

definition rename_errno :: "world \<Rightarrow> path \<Rightarrow> path \<Rightarrow> errno option" where
  "rename_errno w src dst =
     (case store w src of
        None \<Rightarrow> Some ENOENT
      | Some n \<Rightarrow>
          if device w src \<noteq> device w dst then Some EXDEV
          else if src = dst then None
          else if prefix src dst then Some EINVAL
          else (case store w (butlast dst) of
                  None \<Rightarrow> Some ENOENT
                | Some (Dir ns m) \<Rightarrow>
                    (case (n, store w dst) of
                       (_, None) \<Rightarrow> None
                     | (Dir ns1 m1, Some (Dir ns2 m2)) \<Rightarrow> (if ns2 = [] then None else Some ENOTEMPTY)
                     | (Dir ns1 m1, Some _) \<Rightarrow> Some ENOTDIR
                     | (_, Some (Dir ns2 m2)) \<Rightarrow> Some EISDIR
                     | (_, Some _) \<Rightarrow> None)
                | Some _ \<Rightarrow> Some ENOTDIR))"

definition moved_tree :: "(path \<Rightarrow> node option) \<Rightarrow> path \<Rightarrow> path \<Rightarrow> (path \<Rightarrow> node option)" where
  "moved_tree st src dst =
     (\<lambda>k. if prefix dst k then st (src @ drop (length dst) k)
          else if prefix src k then None else st k)"

definition rename :: "world \<Rightarrow> path \<Rightarrow> path \<Rightarrow> (errno + unit) \<times> world" where
  "rename w src dst =
     (case rename_errno w src dst of
        Some e \<Rightarrow> (Inl e, logged w (EvRenameFailed src dst e))
      | None \<Rightarrow>
          (if src = dst then (Inr (), logged w (EvRename src dst))
           else (Inr (), logged (add_name (remove_name
                            (w\<lparr>store := moved_tree (store w) src dst\<rparr>) src) dst)
                          (EvRename src dst))))"

subsection \<open>Paths\<close>

text \<open>\<^verbatim>\<open>path.join(dir, item)\<close> for a resolved directory and an entry name, and the
  other \<^verbatim>\<open>path\<close> functions the nodes use, on resolved paths.\<close>

definition join :: "path \<Rightarrow> string \<Rightarrow> path" where
  "join d item = d @ [item]"

definition dirname :: "path \<Rightarrow> path" where
  "dirname p = butlast p"

definition basename :: "path \<Rightarrow> string" where
  "basename p = (if p = [] then [] else last p)"

fun split_on :: "char \<Rightarrow> string \<Rightarrow> string \<Rightarrow> string list" where
  "split_on c acc [] = [rev acc]"
| "split_on c acc (x # xs) =
     (if x = c then rev acc # split_on c [] xs else split_on c (x # acc) xs)"

definition resolve_step :: "path \<Rightarrow> string \<Rightarrow> path" where
  "resolve_step p c =
     (if c = [] \<or> c = ''.'' then p else if c = ''..'' then butlast p else p @ [c])"

text \<open>\<^verbatim>\<open>path.resolve(s)\<close> on POSIX: an absolute input starts at the root, a relative
  one at the working directory; empty and dot segments go, \<^verbatim>\<open>..\<close> steps up.\<close>

definition path_resolve :: "world \<Rightarrow> string \<Rightarrow> path" where
  "path_resolve w s =
     foldl resolve_step (if s \<noteq> [] \<and> hd s = CHR ''/'' then [] else cwd w)
       (split_on CHR ''/'' [] s)"

section \<open>Errors of the nodes\<close>

datatype error =
    PathRequired
  | SourceRequired
  | DestinationRequired
  | PathNotFound path
  | NotAFile path
  | NotADirectory path
  | DestinationExists path
  | FileTooLarge nat nat
  | ConfirmationRequired string
  | DirectoryBackupNotImplemented
  | DirectoryWithoutRecursive
  | MoveFailedNoFallback errno
  | FsError errno

section \<open>The exists node\<close>

record checkOptions =
  checkType :: "string option"
  includeDetails :: bool
  checkAccess :: "string list"
  resolveSymlinks :: bool

record existsOutputOptions =
  onlyIfExists :: bool
  includeInputData :: bool

record details =
  d_type :: string
  d_size :: nat
  d_isFile :: bool
  d_isDirectory :: bool
  d_isSymbolicLink :: bool
  d_realPath :: "path option"

record existsResult =
  r_path :: path
  r_exists :: bool
  r_pathExists :: bool
  r_typeMatches :: bool
  r_checkType :: string
  r_details :: "details option"
  r_access :: "(string \<times> bool) list"

text \<open>\<^verbatim>\<open>accessPermissions[key] = v\<close> on an object kept as a list of its keys.\<close>

fun set_key :: "string \<Rightarrow> bool \<Rightarrow> (string \<times> bool) list \<Rightarrow> (string \<times> bool) list" where
  "set_key k v [] = [(k, v)]"
| "set_key k v ((k', v') # kvs) =
     (if k = k' then (k, v) # kvs else (k', v') # set_key k v kvs)"

text \<open>The loop over the requested access probes: a probe that fails records \<open>false\<close>
  under its key and the loop goes on; a name that is none of the three does nothing.\<close>

fun access_loop :: "world \<Rightarrow> path \<Rightarrow> string list \<Rightarrow> (string \<times> bool) list \<Rightarrow> (string \<times> bool) list" where
  "access_loop w p [] acc = acc"
| "access_loop w p (a # as) acc =
     (if a = ''readable'' \<or> a = ''writable'' \<or> a = ''executable'' then
        (case access w p a of
           Inr u \<Rightarrow> access_loop w p as (set_key a True acc)
         | Inl e \<Rightarrow> access_loop w p as (set_key a False acc))
      else access_loop w p as acc)"

definition type_matches :: "string \<Rightarrow> stats \<Rightarrow> bool" where
  "type_matches ct st =
     (if ct = ''file'' then isFile st else if ct = ''directory'' then isDirectory st else True)"

definition or_default :: "string option \<Rightarrow> string \<Rightarrow> string" where
  "or_default v d = (case v of None \<Rightarrow> d | Some s \<Rightarrow> (if s = [] then d else s))"

text \<open>One item of \<^verbatim>\<open>FileExists.execute\<close>: \<open>Inl\<close> is the error thrown for the item,
  \<open>Inr None\<close> the item skipped by \<^verbatim>\<open>onlyIfExists\<close>, \<open>Inr (Some r)\<close> the record pushed.\<close>

definition fileExists :: "world \<Rightarrow> string \<Rightarrow> checkOptions \<Rightarrow> existsOutputOptions \<Rightarrow>
    error + existsResult option" where
  "fileExists w filePath co oo =
     (if filePath = [] then Inl PathRequired
      else
        let absolutePath = path_resolve w filePath;
            exists = existsSync w absolutePath;
            st = (if exists then (case stat w absolutePath of Inl e \<Rightarrow> None | Inr s \<Rightarrow> Some s)
                  else None);
            typeMatches = (case st of None \<Rightarrow> True
                           | Some s \<Rightarrow> type_matches (or_default (checkType co) ''any'') s);
            realPath = (case st of None \<Rightarrow> None
                        | Some s \<Rightarrow>
                            (if resolveSymlinks co \<and> isSymbolicLink s then
                               (case realpath w absolutePath of Inl e \<Rightarrow> None | Inr q \<Rightarrow> Some q)
                             else None));
            accessPermissions = (case st of None \<Rightarrow> []
                                 | Some s \<Rightarrow> access_loop w absolutePath (checkAccess co) []);
            finalExists = (exists \<and> typeMatches)
        in if onlyIfExists oo \<and> \<not> finalExists then Inr None
           else Inr (Some \<lparr>
             r_path = absolutePath,
             r_exists = finalExists,
             r_pathExists = exists,
             r_typeMatches = typeMatches,
             r_checkType = or_default (checkType co) ''any'',
             r_details =
               (case st of
                  None \<Rightarrow> None
                | Some s \<Rightarrow>
                    (if includeDetails co then
                       Some \<lparr>d_type = (if isDirectory s then ''directory''
                                       else if isFile s then ''file'' else ''other''),
                             d_size = size s,
                             d_isFile = isFile s,
                             d_isDirectory = isDirectory s,
                             d_isSymbolicLink = isSymbolicLink s,
                             d_realPath = realPath\<rparr>
                     else None)),
             r_access = accessPermissions\<rparr>))"

section \<open>The delete node\<close>

text \<open>The options of the \<^verbatim>\<open>safetyOptions\<close> collection. A boolean option that is not
  set is falsy, as is a size limit of 0; the confirmation text and the backup directory
  fall back to their defaults when empty or not set.\<close>

record safetyOptions =
  so_recursive :: bool
  requireConfirmation :: bool
  confirmationText :: "string option"
  maxFileSize :: nat
  so_createBackup :: bool
  so_backupDirectory :: "string option"
  skipIfNotExists :: bool

text \<open>The names of the properties the node's description declares.\<close>

definition DeleteFile_properties :: "string list" where
  "DeleteFile_properties = [''filePath'', ''deleteMode'', ''safetyOptions'']"

definition safetyOptions_options :: "string list" where
  "safetyOptions_options = [''recursive'', ''requireConfirmation'', ''confirmationText'',
     ''maxFileSize'', ''createBackup'', ''backupDirectory'', ''skipIfNotExists'']"

text \<open>\<^verbatim>\<open>this.getNodeParameter(name, i, fallback)\<close> for a parameter read by name from what
  the host holds for the node.\<close>

definition getNodeParameter :: "(string \<Rightarrow> string option) \<Rightarrow> string \<Rightarrow> string \<Rightarrow> string" where
  "getNodeParameter ps name fallback = (case ps name of None \<Rightarrow> fallback | Some v \<Rightarrow> v)"

text \<open>\<^verbatim>\<open>new Date().toISOString().replace(/[:.]/g, '-')\<close>\<close>

definition timestamp :: "world \<Rightarrow> string" where
  "timestamp w = map (\<lambda>c. if c = CHR '':'' \<or> c = CHR ''.'' then CHR ''-'' else c) (nowISO w)"

definition backup_path :: "world \<Rightarrow> string option \<Rightarrow> path \<Rightarrow> path" where
  "backup_path w backupDirectory absolutePath =
     join (path_resolve w (or_default backupDirectory ''/tmp''))
       (basename absolutePath @ ''.backup.'' @ timestamp w)"

record deleteResult =
  dr_path :: path
  dr_type :: string
  dr_size :: nat
  dr_backupPath :: "path option"

datatype deleteOutcome = Skipped path | Deleted deleteResult

text \<open>The backup step of the delete node: nothing when not requested; otherwise the
  backup directory is made, a file is copied, and a directory is refused.\<close>

definition delete_backup :: "world \<Rightarrow> safetyOptions \<Rightarrow> path \<Rightarrow> stats \<Rightarrow>
    (error + path option) \<times> world" where
  "delete_backup w so absolutePath st =
     (if so_createBackup so then
        let backupPath = backup_path w (so_backupDirectory so) absolutePath in
        (case mkdir_recursive w (dirname backupPath) of
           (Inl e, w1) \<Rightarrow> (Inl (FsError e), w1)
         | (Inr u, w1) \<Rightarrow>
             (if isFile st then
                (case copyFile w1 absolutePath backupPath of
                   (Inl e, w2) \<Rightarrow> (Inl (FsError e), w2)
                 | (Inr u, w2) \<Rightarrow> (Inr (Some backupPath), w2))
              else if isDirectory st then (Inl DirectoryBackupNotImplemented, w1)
              else (Inr (Some backupPath), w1)))
      else (Inr None, w))"

definition delete_perform :: "world \<Rightarrow> safetyOptions \<Rightarrow> path \<Rightarrow> stats \<Rightarrow>
    (errno + unit) \<times> world" where
  "delete_perform w so absolutePath st =
     (if isFile st then unlink w absolutePath
      else if isDirectory st then rmdir w absolutePath (so_recursive so)
      else (Inr (), w))"

text \<open>One item of \<^verbatim>\<open>DeleteFile.execute\<close>: the error thrown for the item or the record
  pushed, and the world afterwards.\<close>

definition deleteFile :: "world \<Rightarrow> (string \<Rightarrow> string option) \<Rightarrow> string \<Rightarrow> string \<Rightarrow>
    safetyOptions \<Rightarrow> (error + deleteOutcome) \<times> world" where
  "deleteFile w ps filePath deleteMode so =
     (if filePath = [] then (Inl PathRequired, w)
      else
        let absolutePath = path_resolve w filePath in
        if \<not> existsSync w absolutePath then
          (if skipIfNotExists so then (Inr (Skipped absolutePath), w)
           else (Inl (PathNotFound absolutePath), w))
        else
          (case stat w absolutePath of
             Inl e \<Rightarrow> (Inl (FsError e), w)
           | Inr st \<Rightarrow>
               if deleteMode = ''file'' \<and> \<not> isFile st then (Inl (NotAFile absolutePath), w)
               else if deleteMode = ''directory'' \<and> \<not> isDirectory st then
                 (Inl (NotADirectory absolutePath), w)
               else if maxFileSize so \<noteq> 0 \<and> isFile st
                       \<and> size st > maxFileSize so * 1024 * 1024 then
                 (Inl (FileTooLarge (size st) (maxFileSize so)), w)
               else if requireConfirmation so
                       \<and> getNodeParameter ps ''confirmationProvided'' []
                           \<noteq> or_default (confirmationText so) ''DELETE'' then
                 (Inl (ConfirmationRequired (or_default (confirmationText so) ''DELETE'')), w)
               else
                 (case delete_backup w so absolutePath st of
                    (Inl e, w1) \<Rightarrow> (Inl e, w1)
                  | (Inr backupPath, w1) \<Rightarrow>
                      (case delete_perform w1 so absolutePath st of
                         (Inl e, w2) \<Rightarrow> (Inl (FsError e), w2)
                       | (Inr u, w2) \<Rightarrow>
                           (Inr (Deleted \<lparr>dr_path = absolutePath,
                                   dr_type = (if isFile st then ''file'' else ''directory''),
                                   dr_size = size st,
                                   dr_backupPath = backupPath\<rparr>), w2)))))"

section \<open>The file-info node and its checksum\<close>

subsection \<open>MD5\<close>

text \<open>\<^verbatim>\<open>createHash('md5').update(buffer).digest('hex')\<close> of the platform's crypto module:
  the MD5 message digest (RFC 1321) of the bytes, in lower-case hexadecimal. The table
  \<open>md5_K\<close> holds the integer parts of \<open>2^32 * |sin (i + 1)|\<close>.\<close>

unbundle bit_operations_syntax

type_synonym u32 = "32 word"

definition md5_K :: "u32 list" where
  "md5_K = [0xd76aa478, 0xe8c7b756, 0x242070db, 0xc1bdceee, 0xf57c0faf, 0x4787c62a, 0xa8304613, 0xfd469501, 0x698098d8, 0x8b44f7af, 0xffff5bb1, 0x895cd7be, 0x6b901122, 0xfd987193, 0xa679438e, 0x49b40821, 0xf61e2562, 0xc040b340, 0x265e5a51, 0xe9b6c7aa, 0xd62f105d, 0x02441453, 0xd8a1e681, 0xe7d3fbc8, 0x21e1cde6, 0xc33707d6, 0xf4d50d87, 0x455a14ed, 0xa9e3e905, 0xfcefa3f8, 0x676f02d9, 0x8d2a4c8a, 0xfffa3942, 0x8771f681, 0x6d9d6122, 0xfde5380c, 0xa4beea44, 0x4bdecfa9, 0xf6bb4b60, 0xbebfbc70, 0x289b7ec6, 0xeaa127fa, 0xd4ef3085, 0x04881d05, 0xd9d4d039, 0xe6db99e5, 0x1fa27cf8, 0xc4ac5665, 0xf4292244, 0x432aff97, 0xab9423a7, 0xfc93a039, 0x655b59c3, 0x8f0ccc92, 0xffeff47d, 0x85845dd1, 0x6fa87e4f, 0xfe2ce6e0, 0xa3014314, 0x4e0811a1, 0xf7537e82, 0xbd3af235, 0x2ad7d2bb, 0xeb86d391]"

definition md5_S :: "nat list" where
  "md5_S = [7, 12, 17, 22, 7, 12, 17, 22, 7, 12, 17, 22, 7, 12, 17, 22,
            5, 9, 14, 20, 5, 9, 14, 20, 5, 9, 14, 20, 5, 9, 14, 20,
            4, 11, 16, 23, 4, 11, 16, 23, 4, 11, 16, 23, 4, 11, 16, 23,
            6, 10, 15, 21, 6, 10, 15, 21, 6, 10, 15, 21, 6, 10, 15, 21]"

definition rotl32 :: "u32 \<Rightarrow> nat \<Rightarrow> u32" where
  "rotl32 x n = push_bit n x OR drop_bit (32 - n) x"

definition md5_F :: "nat \<Rightarrow> u32 \<Rightarrow> u32 \<Rightarrow> u32 \<Rightarrow> u32" where
  "md5_F i b c d =
     (if i < 16 then (b AND c) OR (NOT b AND d)
      else if i < 32 then (d AND b) OR (NOT d AND c)
      else if i < 48 then b XOR c XOR d
      else c XOR (b OR NOT d))"

definition md5_g :: "nat \<Rightarrow> nat" where
  "md5_g i =
     (if i < 16 then i
      else if i < 32 then (5 * i + 1) mod 16
      else if i < 48 then (3 * i + 5) mod 16
      else (7 * i) mod 16)"

type_synonym md5_state = "u32 \<times> u32 \<times> u32 \<times> u32"

definition md5_round :: "u32 list \<Rightarrow> md5_state \<Rightarrow> nat \<Rightarrow> md5_state" where
  "md5_round m s i =
     (case s of (a, b, c, d) \<Rightarrow>
        (d, b + rotl32 (md5_F i b c d + a + md5_K ! i + m ! md5_g i) (md5_S ! i), b, c))"

definition md5_block :: "md5_state \<Rightarrow> u32 list \<Rightarrow> md5_state" where
  "md5_block h m =
     (case (h, foldl (md5_round m) h [0..<64]) of
        ((a0, b0, c0, d0), (a, b, c, d)) \<Rightarrow> (a0 + a, b0 + b, c0 + c, d0 + d))"

text \<open>The bytes of a word, least significant first.\<close>

definition le_bytes32 :: "u32 \<Rightarrow> 8 word list" where
  "le_bytes32 x = map (\<lambda>i. ucast (drop_bit (8 * i) x)) [0, 1, 2, 3]"

definition le_bytes64 :: "64 word \<Rightarrow> 8 word list" where
  "le_bytes64 x = map (\<lambda>i. ucast (drop_bit (8 * i) x)) [0, 1, 2, 3, 4, 5, 6, 7]"

definition md5_pad :: "8 word list \<Rightarrow> 8 word list" where
  "md5_pad bs =
     bs @ [0x80] @ replicate ((119 - length bs mod 64) mod 64) 0
        @ le_bytes64 (of_nat (8 * length bs))"

fun le_words :: "8 word list \<Rightarrow> u32 list" where
  "le_words (b0 # b1 # b2 # b3 # bs) =
     (ucast b0 OR push_bit 8 (ucast b1) OR push_bit 16 (ucast b2) OR push_bit 24 (ucast b3))
       # le_words bs"
| "le_words _ = []"

fun chunks16 :: "nat \<Rightarrow> u32 list \<Rightarrow> u32 list list" where
  "chunks16 0 ws = []"
| "chunks16 (Suc n) ws = take 16 ws # chunks16 n (drop 16 ws)"

definition hex_digit :: "8 word \<Rightarrow> char" where
  "hex_digit n = ''0123456789abcdef'' ! unat n"

definition hex_byte :: "8 word \<Rightarrow> string" where
  "hex_byte b = [hex_digit (drop_bit 4 b), hex_digit (b AND 0x0f)]"

definition md5_hex :: "string \<Rightarrow> string" where
  "md5_hex s =
     (let ws = le_words (md5_pad (map of_char s));
          h = foldl md5_block (0x67452301, 0xefcdab89, 0x98badcfe, 0x10325476)
                (chunks16 (length ws div 16) ws)
      in case h of (a, b, c, d) \<Rightarrow>
           concat (map hex_byte (concat (map le_bytes32 [a, b, c, d]))))"

subsection \<open>The node\<close>

text \<open>\<^verbatim>\<open>calculateMd5Checksum\<close> of \<^verbatim>\<open>utils/fileUtils.ts\<close>, which the node imports and
  calls.\<close>

definition calculateMd5Checksum :: "world \<Rightarrow> path \<Rightarrow> errno + string" where
  "calculateMd5Checksum w filePath =
     (case readFile w filePath of Inl e \<Rightarrow> Inl e | Inr buffer \<Rightarrow> Inr (md5_hex buffer))"

text \<open>Decimal digits of a number, for the template string below.\<close>

function show_nat :: "nat \<Rightarrow> string" where
  "show_nat n =
     (if n < 10 then [''0123456789'' ! n] else show_nat (n div 10) @ [''0123456789'' ! (n mod 10)])"
  by pat_completeness auto
termination
  by (relation "measure id") auto

declare show_nat.simps [simp del]

text \<open>The private method \<^verbatim>\<open>calculateMd5Checksum\<close> of the class \<^verbatim>\<open>FileInfo\<close>, which
  returns \<^verbatim>\<open>md5-<length>-<Date.now()>\<close>. Nothing in the class calls it.\<close>

definition FileInfo_calculateMd5Checksum :: "world \<Rightarrow> path \<Rightarrow> errno + string" where
  "FileInfo_calculateMd5Checksum w filePath =
     (case readFile w filePath of
        Inl e \<Rightarrow> Inl e
      | Inr buffer \<Rightarrow> Inr (''md5-'' @ show_nat (length buffer) @ ''-'' @ show_nat (now w)))"

text \<open>The options and output fields of the node that concern kind, links and checksum;
  MIME type, content sample and directory counts add further fields and are left out.\<close>

record includeOptions =
  calculateChecksum :: bool
  resolveRealPath :: bool

record fileInfo =
  fi_path :: path
  fi_type :: string
  fi_size :: nat
  fi_isFile :: bool
  fi_isDirectory :: bool
  fi_isSymbolicLink :: bool
  fi_realPath :: "path option"
  fi_realPathError :: "errno option"
  fi_checksum :: "string option"
  fi_checksumError :: "errno option"

text \<open>One item of \<^verbatim>\<open>FileInfo.execute\<close>.\<close>

definition fileInfoItem :: "world \<Rightarrow> string \<Rightarrow> includeOptions \<Rightarrow> error + fileInfo" where
  "fileInfoItem w filePath io =
     (if filePath = [] then Inl PathRequired
      else
        let absolutePath = path_resolve w filePath in
        if \<not> existsSync w absolutePath then Inl (PathNotFound absolutePath)
        else
          (case stat w absolutePath of
             Inl e \<Rightarrow> Inl (FsError e)
           | Inr st \<Rightarrow>
               let rp = (if resolveRealPath io \<and> isSymbolicLink st
                         then Some (realpath w absolutePath) else None);
                   cs = (if calculateChecksum io \<and> isFile st \<and> size st > 0
                         then Some (calculateMd5Checksum w absolutePath) else None)
               in Inr \<lparr>fi_path = absolutePath,
                        fi_type = (if isDirectory st then ''directory''
                                   else if isFile st then ''file'' else ''other''),
                        fi_size = size st,
                        fi_isFile = isFile st,
                        fi_isDirectory = isDirectory st,
                        fi_isSymbolicLink = isSymbolicLink st,
                        fi_realPath = (case rp of Some (Inr q) \<Rightarrow> Some q | _ \<Rightarrow> None),
                        fi_realPathError = (case rp of Some (Inl e) \<Rightarrow> Some e | _ \<Rightarrow> None),
                        fi_checksum = (case cs of Some (Inr h) \<Rightarrow> Some h | _ \<Rightarrow> None),
                        fi_checksumError = (case cs of Some (Inl e) \<Rightarrow> Some e | _ \<Rightarrow> None)\<rparr>))"

section \<open>The list node\<close>

subsection \<open>Names and extensions\<close>

definition startsWith_dot :: "string \<Rightarrow> bool" where
  "startsWith_dot item = (case item of [] \<Rightarrow> False | c # cs \<Rightarrow> c = CHR ''.'')"

text \<open>\<^verbatim>\<open>path.extname\<close>: from the last dot of the name on, and nothing when there is no
  dot, when the only dot leads the name, or for \<^verbatim>\<open>..\<close>.\<close>

fun last_dot :: "string \<Rightarrow> nat option" where
  "last_dot [] = None"
| "last_dot (c # cs) =
     (case last_dot cs of
        Some i \<Rightarrow> Some (Suc i)
      | None \<Rightarrow> (if c = CHR ''.'' then Some 0 else None))"

definition extname :: "string \<Rightarrow> string" where
  "extname name =
     (case last_dot name of
        None \<Rightarrow> []
      | Some i \<Rightarrow> (if i = 0 \<or> name = ''..'' then [] else drop i name))"

text \<open>\<^verbatim>\<open>toLowerCase\<close> and \<^verbatim>\<open>trim\<close> on strings of one-byte characters: the letters
  \<^verbatim>\<open>A\<close> to \<^verbatim>\<open>Z\<close> are lowered, the white space of ASCII is trimmed.\<close>

definition lower_char :: "char \<Rightarrow> char" where
  "lower_char c =
     (if (65 :: nat) \<le> of_char c \<and> of_char c \<le> (90 :: nat)
      then char_of (of_char c + (32 :: nat)) else c)"

definition toLowerCase :: "string \<Rightarrow> string" where
  "toLowerCase s = map lower_char s"

definition is_space :: "char \<Rightarrow> bool" where
  "is_space c = (c = CHR '' '' \<or> c = CHR 0x09 \<or> c = CHR 0x0A \<or> c = CHR 0x0B
     \<or> c = CHR 0x0C \<or> c = CHR 0x0D)"

definition trim :: "string \<Rightarrow> string" where
  "trim s = rev (dropWhile is_space (rev (dropWhile is_space s)))"

subsection \<open>The filters\<close>

text \<open>The \<^verbatim>\<open>filterOptions\<close> collection. A numeric option that is 0 or not set and an
  empty string are falsy. The name pattern is held as the test of its compiled regular
  expression; a pattern that does not compile is outside the model.\<close>

record filterOptions =
  extensionFilter :: string
  namePattern :: "(string \<Rightarrow> bool) option"
  minSize :: nat
  maxSize :: nat

definition list_passesFileFilters :: "path \<Rightarrow> stats \<Rightarrow> filterOptions \<Rightarrow> bool" where
  "list_passesFileFilters filePath st fo =
     (if extensionFilter fo \<noteq> []
         \<and> toLowerCase (extname (basename filePath))
              \<notin> set (map (\<lambda>ext. toLowerCase (trim ext)) (split_on CHR '','' [] (extensionFilter fo)))
      then False
      else if (case namePattern fo of None \<Rightarrow> False | Some test \<Rightarrow> \<not> test (basename filePath))
      then False
      else if minSize fo \<noteq> 0 \<and> size st < minSize fo then False
      else if maxSize fo \<noteq> 0 \<and> size st > maxSize fo then False
      else True)"

subsection \<open>The walk\<close>

text \<open>The entry pushed for an item; \<^verbatim>\<open>relativePath\<close>, \<^verbatim>\<open>sizeHuman\<close>, the other two
  timestamps and the permission bits are left out.\<close>

record listEntry =
  le_name :: string
  le_path :: path
  le_type :: string
  le_extension :: string
  le_size :: nat
  le_modified :: nat
  le_isFile :: bool
  le_isDirectory :: bool

definition list_fileInfo :: "string \<Rightarrow> path \<Rightarrow> stats \<Rightarrow> listEntry" where
  "list_fileInfo item fullPath st =
     \<lparr>le_name = item, le_path = fullPath,
      le_type = (if isDirectory st then ''directory'' else ''file''),
      le_extension = (if isFile st then extname item else []),
      le_size = size st, le_modified = st_mtime st,
      le_isFile = isFile st, le_isDirectory = isDirectory st\<rparr>"

text \<open>\<^verbatim>\<open>getFilesRecursively\<close> of \<^verbatim>\<open>ListFiles.node.ts\<close> and its loop over the items of
  one directory. Nothing bounds the recursion in the source, so the model counts the
  nesting of calls down from a given number and gives \<open>None\<close> when that is used up.
  \<open>Some (Inl e)\<close> is the error thrown out of the walk, \<open>Some (Inr files)\<close> the array
  returned.\<close>

fun list_getFilesRecursively ::
    "nat \<Rightarrow> world \<Rightarrow> path \<Rightarrow> bool \<Rightarrow> bool \<Rightarrow> string \<Rightarrow> filterOptions \<Rightarrow> (errno + listEntry list) option"
  and list_loop ::
    "nat \<Rightarrow> world \<Rightarrow> path \<Rightarrow> bool \<Rightarrow> bool \<Rightarrow> string \<Rightarrow> filterOptions \<Rightarrow> string list
       \<Rightarrow> (errno + listEntry list) option"
where
  "list_getFilesRecursively 0 w dirPath recursive includeHidden listMode fo = None"
| "list_getFilesRecursively (Suc n) w dirPath recursive includeHidden listMode fo =
     (case readdir w dirPath of
        Inl e \<Rightarrow> Some (Inl e)
      | Inr items \<Rightarrow> list_loop n w dirPath recursive includeHidden listMode fo items)"
| "list_loop n w dirPath recursive includeHidden listMode fo [] = Some (Inr [])"
| "list_loop n w dirPath recursive includeHidden listMode fo (item # rest) =
     (case stat w (join dirPath item) of
        Inl e \<Rightarrow> Some (Inl e)
      | Inr st \<Rightarrow>
          if \<not> includeHidden \<and> startsWith_dot item then
            list_loop n w dirPath recursive includeHidden listMode fo rest
          else if listMode = ''files'' \<and> \<not> isFile st then
            list_loop n w dirPath recursive includeHidden listMode fo rest
          else if listMode = ''directories'' \<and> \<not> isDirectory st then
            list_loop n w dirPath recursive includeHidden listMode fo rest
          else if isFile st \<and> \<not> list_passesFileFilters (join dirPath item) st fo then
            list_loop n w dirPath recursive includeHidden listMode fo rest
          else
            (case (if recursive \<and> isDirectory st
                   then list_getFilesRecursively n w (join dirPath item) recursive includeHidden
                          listMode fo
                   else Some (Inr [])) of
               None \<Rightarrow> None
             | Some (Inl e) \<Rightarrow> Some (Inl e)
             | Some (Inr subFiles) \<Rightarrow>
                 (case list_loop n w dirPath recursive includeHidden listMode fo rest of
                    None \<Rightarrow> None
                  | Some (Inl e) \<Rightarrow> Some (Inl e)
                  | Some (Inr files) \<Rightarrow>
                      Some (Inr (list_fileInfo item (join dirPath item) st # subFiles @ files)))))"

section \<open>The shared recursive helper\<close>

text \<open>\<^verbatim>\<open>getFilesRecursively\<close> of \<^verbatim>\<open>utils/fileUtils.ts\<close>. The include and exclude patterns
  are held as the tests of their compiled regular expressions; each is tried on the item
  name and on the full path as a string.\<close>

definition path_string :: "path \<Rightarrow> string" where
  "path_string p = (if p = [] then ''/'' else concat (map (\<lambda>c. CHR ''/'' # c) p))"

record walkEntry =
  we_path :: path
  we_name :: string
  we_isDirectory :: bool
  we_stats :: stats

definition some_pattern :: "(string \<Rightarrow> bool) list \<Rightarrow> string \<Rightarrow> path \<Rightarrow> bool" where
  "some_pattern pats item fullPath =
     list_ex (\<lambda>test. test item \<or> test (path_string fullPath)) pats"

text \<open>The loop returns the entries pushed so far and the error that ended it, if one
  did; the \<^verbatim>\<open>catch\<close> around the loop drops the error and the entries are returned.\<close>

function getFilesRecursively ::
    "world \<Rightarrow> path \<Rightarrow> nat \<Rightarrow> nat \<Rightarrow> (string \<Rightarrow> bool) list \<Rightarrow> (string \<Rightarrow> bool) list \<Rightarrow> walkEntry list"
  and walk_loop ::
    "world \<Rightarrow> path \<Rightarrow> nat \<Rightarrow> nat \<Rightarrow> (string \<Rightarrow> bool) list \<Rightarrow> (string \<Rightarrow> bool) list \<Rightarrow> string list
       \<Rightarrow> walkEntry list \<times> errno option"
where
  "getFilesRecursively w dirPath maxDepth currentDepth patterns excludePatterns =
     (if currentDepth \<ge> maxDepth then []
      else (case readdir w dirPath of
              Inl e \<Rightarrow> []
            | Inr items \<Rightarrow>
                fst (walk_loop w dirPath maxDepth currentDepth patterns excludePatterns items)))"
| "walk_loop w dirPath maxDepth currentDepth patterns excludePatterns [] = ([], None)"
| "walk_loop w dirPath maxDepth currentDepth patterns excludePatterns (item # rest) =
     (case stat w (join dirPath item) of
        Inl e \<Rightarrow> ([], Some e)
      | Inr st \<Rightarrow>
          if some_pattern excludePatterns item (join dirPath item) then
            walk_loop w dirPath maxDepth currentDepth patterns excludePatterns rest
          else if patterns \<noteq> [] \<and> \<not> some_pattern patterns item (join dirPath item)
                  \<and> \<not> isDirectory st then
            walk_loop w dirPath maxDepth currentDepth patterns excludePatterns rest
          else
            let fileInfo = \<lparr>we_path = join dirPath item, we_name = item,
                              we_isDirectory = isDirectory st, we_stats = st\<rparr>;
                subResults = (if isDirectory st
                              then getFilesRecursively w (join dirPath item) maxDepth
                                     (currentDepth + 1) patterns excludePatterns
                              else []);
                (results, err) = walk_loop w dirPath maxDepth currentDepth patterns
                                   excludePatterns rest
            in (fileInfo # subResults @ results, err))"
  by pat_completeness auto
termination
  by (relation "measures
        [\<lambda>x. case x of
               Inl (w, d, m, c, ps, es) \<Rightarrow> 2 * (m - c)
             | Inr (w, d, m, c, ps, es, items) \<Rightarrow> 2 * (m - c) - 1,
         \<lambda>x. case x of
               Inl (w, d, m, c, ps, es) \<Rightarrow> 0
             | Inr (w, d, m, c, ps, es, items) \<Rightarrow> Suc (length items)]")
     auto

section \<open>Copying\<close>

text \<open>\<^verbatim>\<open>copyDirectoryRecursive\<close> of \<^verbatim>\<open>utils/fileUtils.ts\<close>, which the copy and the move
  node import, and its loop over the items read from the source. The source bounds the
  recursion by nothing, so the model counts the nesting of calls down and gives \<open>None\<close>
  when the count is used up. The result comes with the world as the call left it.\<close>

fun copyDirectoryRecursive ::
    "nat \<Rightarrow> world \<Rightarrow> path \<Rightarrow> path \<Rightarrow> bool \<Rightarrow> (errno + nat) option \<times> world"
  and copy_loop ::
    "nat \<Rightarrow> world \<Rightarrow> path \<Rightarrow> path \<Rightarrow> bool \<Rightarrow> string list \<Rightarrow> (errno + nat) option \<times> world"
where
  "copyDirectoryRecursive 0 w source destination preserveTimestamps = (None, w)"
| "copyDirectoryRecursive (Suc n) w source destination preserveTimestamps =
     (case mkdir_recursive w destination of
        (Inl e, w1) \<Rightarrow> (Some (Inl e), w1)
      | (Inr u, w1) \<Rightarrow>
          (case readdir w1 source of
             Inl e \<Rightarrow> (Some (Inl e), w1)
           | Inr items \<Rightarrow> copy_loop n w1 source destination preserveTimestamps items))"
| "copy_loop n w source destination preserveTimestamps [] = (Some (Inr 0), w)"
| "copy_loop n w source destination preserveTimestamps (item # rest) =
     (case stat w (join source item) of
        Inl e \<Rightarrow> (Some (Inl e), w)
      | Inr st \<Rightarrow>
          if isDirectory st then
            (case copyDirectoryRecursive n w (join source item) (join destination item)
                    preserveTimestamps of
               (Some (Inr bytes), w1) \<Rightarrow>
                 (case copy_loop n w1 source destination preserveTimestamps rest of
                    (Some (Inr restBytes), w2) \<Rightarrow> (Some (Inr (bytes + restBytes)), w2)
                  | (r, w2) \<Rightarrow> (r, w2))
             | (r, w1) \<Rightarrow> (r, w1))
          else
            (case copyFile w (join source item) (join destination item) of
               (Inl e, w1) \<Rightarrow> (Some (Inl e), w1)
             | (Inr u, w1) \<Rightarrow>
                 (case (if preserveTimestamps
                        then utimes w1 (join destination item) (st_atime st) (st_mtime st)
                        else (Inr (), w1)) of
                    (Inl e, w2) \<Rightarrow> (Some (Inl e), w2)
                  | (Inr u, w2) \<Rightarrow>
                      (case copy_loop n w2 source destination preserveTimestamps rest of
                         (Some (Inr restBytes), w3) \<Rightarrow> (Some (Inr (size st + restBytes)), w3)
                       | (r, w3) \<Rightarrow> (r, w3)))))"

text \<open>The private method \<^verbatim>\<open>copyDirectoryRecursive\<close> of the class \<^verbatim>\<open>CopyFile\<close>. After the
  loop it sets the times of the destination directory. \<^verbatim>\<open>execute\<close> does not call it.\<close>

fun CopyFile_copyDirectoryRecursive ::
    "nat \<Rightarrow> world \<Rightarrow> path \<Rightarrow> path \<Rightarrow> bool \<Rightarrow> (errno + nat) option \<times> world"
  and CopyFile_copy_loop ::
    "nat \<Rightarrow> world \<Rightarrow> path \<Rightarrow> path \<Rightarrow> bool \<Rightarrow> string list \<Rightarrow> (errno + nat) option \<times> world"
where
  "CopyFile_copyDirectoryRecursive 0 w sourcePath destPath preserveTimestamps = (None, w)"
| "CopyFile_copyDirectoryRecursive (Suc n) w sourcePath destPath preserveTimestamps =
     (case mkdir_recursive w destPath of
        (Inl e, w1) \<Rightarrow> (Some (Inl e), w1)
      | (Inr u, w1) \<Rightarrow>
          (case readdir w1 sourcePath of
             Inl e \<Rightarrow> (Some (Inl e), w1)
           | Inr items \<Rightarrow>
               (case CopyFile_copy_loop n w1 sourcePath destPath preserveTimestamps items of
                  (Some (Inr totalBytes), w2) \<Rightarrow>
                    (if preserveTimestamps then
                       (case stat w2 sourcePath of
                          Inl e \<Rightarrow> (Some (Inl e), w2)
                        | Inr sourceStats \<Rightarrow>
                            (case utimes w2 destPath (st_atime sourceStats) (st_mtime sourceStats) of
                               (Inl e, w3) \<Rightarrow> (Some (Inl e), w3)
                             | (Inr u, w3) \<Rightarrow> (Some (Inr totalBytes), w3)))
                     else (Some (Inr totalBytes), w2))
                | (r, w2) \<Rightarrow> (r, w2))))"
| "CopyFile_copy_loop n w sourcePath destPath preserveTimestamps [] = (Some (Inr 0), w)"
| "CopyFile_copy_loop n w sourcePath destPath preserveTimestamps (item # rest) =
     (case stat w (join sourcePath item) of
        Inl e \<Rightarrow> (Some (Inl e), w)
      | Inr st \<Rightarrow>
          if isFile st then
            (case copyFile w (join sourcePath item) (join destPath item) of
               (Inl e, w1) \<Rightarrow> (Some (Inl e), w1)
             | (Inr u, w1) \<Rightarrow>
                 (case (if preserveTimestamps
                        then utimes w1 (join destPath item) (st_atime st) (st_mtime st)
                        else (Inr (), w1)) of
                    (Inl e, w2) \<Rightarrow> (Some (Inl e), w2)
                  | (Inr u, w2) \<Rightarrow>
                      (case CopyFile_copy_loop n w2 sourcePath destPath preserveTimestamps rest of
                         (Some (Inr restBytes), w3) \<Rightarrow> (Some (Inr (size st + restBytes)), w3)
                       | (r, w3) \<Rightarrow> (r, w3))))
          else if isDirectory st then
            (case CopyFile_copyDirectoryRecursive n w (join sourcePath item) (join destPath item)
                    preserveTimestamps of
               (Some (Inr subdirBytes), w1) \<Rightarrow>
                 (case CopyFile_copy_loop n w1 sourcePath destPath preserveTimestamps rest of
                    (Some (Inr restBytes), w2) \<Rightarrow> (Some (Inr (subdirBytes + restBytes)), w2)
                  | (r, w2) \<Rightarrow> (r, w2))
             | (r, w1) \<Rightarrow> (r, w1))
          else CopyFile_copy_loop n w sourcePath destPath preserveTimestamps rest)"

subsection \<open>The copy node\<close>

text \<open>The \<^verbatim>\<open>copyOptions\<close> collection. \<^verbatim>\<open>overwrite\<close> is falsy when not set; the options
  read with \<^verbatim>\<open>!== false\<close> are on unless set to false; the mode defaults to \<^verbatim>\<open>auto\<close>.\<close>

record copyOptions =
  co_overwrite :: bool
  co_preserveTimestamps :: "bool option"
  co_createDestDir :: "bool option"
  copyMode :: "string option"
  co_recursive :: "bool option"

definition not_false :: "bool option \<Rightarrow> bool" where
  "not_false v = (v \<noteq> Some False)"

record copyResult =
  cr_sourcePath :: path
  cr_destinationPath :: path
  cr_sourceType :: string
  cr_copiedBytes :: nat
  cr_preservedTimestamps :: bool
  cr_destSize :: nat

text \<open>The copy itself, between the checks and the final \<^verbatim>\<open>stat\<close> of the destination.\<close>

definition copy_perform :: "nat \<Rightarrow> world \<Rightarrow> path \<Rightarrow> path \<Rightarrow> stats \<Rightarrow> bool \<Rightarrow> bool \<Rightarrow>
    (error + nat) option \<times> world" where
  "copy_perform n w absoluteSourcePath absoluteDestPath sourceStats preserveTimestamps recursive =
     (if isFile sourceStats then
        (case copyFile w absoluteSourcePath absoluteDestPath of
           (Inl e, w1) \<Rightarrow> (Some (Inl (FsError e)), w1)
         | (Inr u, w1) \<Rightarrow>
             (if preserveTimestamps then
                (case utimes w1 absoluteDestPath (st_atime sourceStats) (st_mtime sourceStats) of
                   (Inl e, w2) \<Rightarrow> (Some (Inl (FsError e)), w2)
                 | (Inr u, w2) \<Rightarrow> (Some (Inr (size sourceStats)), w2))
              else (Some (Inr (size sourceStats)), w1)))
      else if isDirectory sourceStats \<and> recursive then
        (case copyDirectoryRecursive n w absoluteSourcePath absoluteDestPath preserveTimestamps of
           (None, w1) \<Rightarrow> (None, w1)
         | (Some (Inl e), w1) \<Rightarrow> (Some (Inl (FsError e)), w1)
         | (Some (Inr bytes), w1) \<Rightarrow> (Some (Inr bytes), w1))
      else if isDirectory sourceStats \<and> \<not> recursive then
        (Some (Inl DirectoryWithoutRecursive), w)
      else (Some (Inr 0), w))"

text \<open>One item of \<^verbatim>\<open>CopyFile.execute\<close>.\<close>

definition copyItem :: "nat \<Rightarrow> world \<Rightarrow> string \<Rightarrow> string \<Rightarrow> copyOptions \<Rightarrow>
    (error + copyResult) option \<times> world" where
  "copyItem n w sourcePath destinationPath co =
     (if sourcePath = [] then (Some (Inl SourceRequired), w)
      else if destinationPath = [] then (Some (Inl DestinationRequired), w)
      else
        let absoluteSourcePath = path_resolve w sourcePath;
            absoluteDestPath = path_resolve w destinationPath in
        if \<not> existsSync w absoluteSourcePath then (Some (Inl (PathNotFound absoluteSourcePath)), w)
        else
          (case stat w absoluteSourcePath of
             Inl e \<Rightarrow> (Some (Inl (FsError e)), w)
           | Inr sourceStats \<Rightarrow>
               if or_default (copyMode co) ''auto'' = ''file'' \<and> \<not> isFile sourceStats then
                 (Some (Inl (NotAFile absoluteSourcePath)), w)
               else if or_default (copyMode co) ''auto'' = ''directory''
                       \<and> \<not> isDirectory sourceStats then
                 (Some (Inl (NotADirectory absoluteSourcePath)), w)
               else if existsSync w absoluteDestPath \<and> \<not> co_overwrite co then
                 (Some (Inl (DestinationExists absoluteDestPath)), w)
               else
                 (case (if not_false (co_createDestDir co)
                           \<and> \<not> existsSync w (dirname absoluteDestPath)
                        then mkdir_recursive w (dirname absoluteDestPath) else (Inr (), w)) of
                    (Inl e, w1) \<Rightarrow> (Some (Inl (FsError e)), w1)
                  | (Inr u, w1) \<Rightarrow>
                      (case copy_perform n w1 absoluteSourcePath absoluteDestPath sourceStats
                              (not_false (co_preserveTimestamps co))
                              (not_false (co_recursive co)) of
                         (None, w2) \<Rightarrow> (None, w2)
                       | (Some (Inl e), w2) \<Rightarrow> (Some (Inl e), w2)
                       | (Some (Inr copiedBytes), w2) \<Rightarrow>
                           (case stat w2 absoluteDestPath of
                              Inl e \<Rightarrow> (Some (Inl (FsError e)), w2)
                            | Inr destStats \<Rightarrow>
                                (Some (Inr \<lparr>cr_sourcePath = absoluteSourcePath,
                                     cr_destinationPath = absoluteDestPath,
                                     cr_sourceType = (if isFile sourceStats then ''file''
                                                      else ''directory''),
                                     cr_copiedBytes = copiedBytes,
                                     cr_preservedTimestamps = not_false (co_preserveTimestamps co),
                                     cr_destSize = size destStats\<rparr>), w2))))))"

section \<open>The move node\<close>

record moveOptions =
  mo_overwrite :: bool
  mo_createDestDir :: "bool option"
  moveMode :: "string option"
  fallbackCopy :: "bool option"
  mo_createBackup :: bool
  mo_backupDirectory :: "string option"

record moveResult =
  mr_sourcePath :: path
  mr_destinationPath :: path
  mr_sourceType :: string
  mr_size :: nat
  mr_moveMethod :: string
  mr_backupPath :: "path option"

text \<open>\<^verbatim>\<open>backupPath + '.info'\<close>\<close>

definition info_path :: "path \<Rightarrow> path" where
  "info_path backupPath = butlast backupPath @ [basename backupPath @ ''.info'']"

text \<open>The JSON text written as the marker of a directory backup.\<close>

definition dq :: string where
  "dq = [CHR 0x22]"

definition backup_marker :: "world \<Rightarrow> path \<Rightarrow> string" where
  "backup_marker w absoluteSourcePath =
     ''{'' @ dq @ ''originalPath'' @ dq @ '':'' @ dq @ path_string absoluteSourcePath @ dq
       @ '','' @ dq @ ''backupTime'' @ dq @ '':'' @ dq @ nowISO w @ dq
       @ '','' @ dq @ ''type'' @ dq @ '':'' @ dq @ ''directory'' @ dq
       @ '','' @ dq @ ''note'' @ dq @ '':'' @ dq @ ''Directory backup - original was moved'' @ dq
       @ ''}''"

text \<open>The backup step of the move node: a file is copied; for a directory a marker file
  is written next to where the backup would be, and the move goes on.\<close>

definition move_backup :: "world \<Rightarrow> moveOptions \<Rightarrow> path \<Rightarrow> stats \<Rightarrow>
    (error + path option) \<times> world" where
  "move_backup w mo absoluteSourcePath sourceStats =
     (if mo_createBackup mo then
        let backupPath = backup_path w (mo_backupDirectory mo) absoluteSourcePath in
        (case mkdir_recursive w (dirname backupPath) of
           (Inl e, w1) \<Rightarrow> (Inl (FsError e), w1)
         | (Inr u, w1) \<Rightarrow>
             (if isFile sourceStats then
                (case copyFile w1 absoluteSourcePath backupPath of
                   (Inl e, w2) \<Rightarrow> (Inl (FsError e), w2)
                 | (Inr u, w2) \<Rightarrow> (Inr (Some backupPath), w2))
              else if isDirectory sourceStats then
                (case writeFile w1 (info_path backupPath) (backup_marker w1 absoluteSourcePath) of
                   (Inl e, w2) \<Rightarrow> (Inl (FsError e), w2)
                 | (Inr u, w2) \<Rightarrow> (Inr (Some backupPath), w2))
              else (Inr (Some backupPath), w1)))
      else (Inr None, w))"

text \<open>The move itself: the rename, and in its \<^verbatim>\<open>catch\<close> the copy and delete or the
  error. The value is the \<^verbatim>\<open>moveMethod\<close>. The copy of a directory is the shared helper
  called without its third argument, so without preserving times.\<close>

definition move_perform :: "nat \<Rightarrow> world \<Rightarrow> path \<Rightarrow> path \<Rightarrow> stats \<Rightarrow> bool \<Rightarrow>
    (error + string) option \<times> world" where
  "move_perform n w absoluteSourcePath absoluteDestPath sourceStats fallback =
     (case rename w absoluteSourcePath absoluteDestPath of
        (Inr u, w1) \<Rightarrow> (Some (Inr ''atomic''), w1)
      | (Inl renameError, w1) \<Rightarrow>
          if fallback then
            (if isFile sourceStats then
               (case copyFile w1 absoluteSourcePath absoluteDestPath of
                  (Inl e, w2) \<Rightarrow> (Some (Inl (FsError e)), w2)
                | (Inr u, w2) \<Rightarrow>
                    (case unlink w2 absoluteSourcePath of
                       (Inl e, w3) \<Rightarrow> (Some (Inl (FsError e)), w3)
                     | (Inr u, w3) \<Rightarrow> (Some (Inr ''copy-delete''), w3)))
             else if isDirectory sourceStats then
               (case copyDirectoryRecursive n w1 absoluteSourcePath absoluteDestPath False of
                  (None, w2) \<Rightarrow> (None, w2)
                | (Some (Inl e), w2) \<Rightarrow> (Some (Inl (FsError e)), w2)
                | (Some (Inr bytes), w2) \<Rightarrow>
                    (case rmdir w2 absoluteSourcePath True of
                       (Inl e, w3) \<Rightarrow> (Some (Inl (FsError e)), w3)
                     | (Inr u, w3) \<Rightarrow> (Some (Inr ''copy-delete''), w3)))
             else (Some (Inr ''copy-delete''), w1))
          else (Some (Inl (MoveFailedNoFallback renameError)), w1))"

text \<open>One item of \<^verbatim>\<open>MoveFile.execute\<close>.\<close>

definition moveItem :: "nat \<Rightarrow> world \<Rightarrow> string \<Rightarrow> string \<Rightarrow> moveOptions \<Rightarrow>
    (error + moveResult) option \<times> world" where
  "moveItem n w sourcePath destinationPath mo =
     (if sourcePath = [] then (Some (Inl SourceRequired), w)
      else if destinationPath = [] then (Some (Inl DestinationRequired), w)
      else
        let absoluteSourcePath = path_resolve w sourcePath;
            absoluteDestPath = path_resolve w destinationPath in
        if \<not> existsSync w absoluteSourcePath then (Some (Inl (PathNotFound absoluteSourcePath)), w)
        else
          (case stat w absoluteSourcePath of
             Inl e \<Rightarrow> (Some (Inl (FsError e)), w)
           | Inr sourceStats \<Rightarrow>
               if or_default (moveMode mo) ''auto'' = ''file'' \<and> \<not> isFile sourceStats then
                 (Some (Inl (NotAFile absoluteSourcePath)), w)
               else if or_default (moveMode mo) ''auto'' = ''directory''
                       \<and> \<not> isDirectory sourceStats then
                 (Some (Inl (NotADirectory absoluteSourcePath)), w)
               else if existsSync w absoluteDestPath \<and> \<not> mo_overwrite mo then
                 (Some (Inl (DestinationExists absoluteDestPath)), w)
               else
                 (case (if not_false (mo_createDestDir mo)
                           \<and> \<not> existsSync w (dirname absoluteDestPath)
                        then mkdir_recursive w (dirname absoluteDestPath) else (Inr (), w)) of
                    (Inl e, w1) \<Rightarrow> (Some (Inl (FsError e)), w1)
                  | (Inr u, w1) \<Rightarrow>
                      (case move_backup w1 mo absoluteSourcePath sourceStats of
                         (Inl e, w2) \<Rightarrow> (Some (Inl e), w2)
                       | (Inr backupPath, w2) \<Rightarrow>
                           (case move_perform n w2 absoluteSourcePath absoluteDestPath sourceStats
                                   (not_false (fallbackCopy mo)) of
                              (None, w3) \<Rightarrow> (None, w3)
                            | (Some (Inl e), w3) \<Rightarrow> (Some (Inl e), w3)
                            | (Some (Inr moveMethod), w3) \<Rightarrow>
                                (case stat w3 absoluteDestPath of
                                   Inl e \<Rightarrow> (Some (Inl (FsError e)), w3)
                                 | Inr destStats \<Rightarrow>
                                     (Some (Inr \<lparr>mr_sourcePath = absoluteSourcePath,
                                          mr_destinationPath = absoluteDestPath,
                                          mr_sourceType = (if isFile sourceStats then ''file''
                                                           else ''directory''),
                                          mr_size = size destStats,
                                          mr_moveMethod = moveMethod,
                                          mr_backupPath = backupPath\<rparr>), w3)))))))"


text \<open>A later world keeps the links and the regular files of an earlier one.\<close>

definition keeps :: "world \<Rightarrow> world \<Rightarrow> bool" where
  "keeps w w' =
     ((\<forall>k t. (store w' k = Some (Link t)) = (store w k = Some (Link t)))
      \<and> (\<forall>k c m. store w k = Some (File c m) \<longrightarrow> store w' k = Some (File c m)))"





definition no_new_links :: "world \<Rightarrow> world \<Rightarrow> bool" where
  "no_new_links w w' = (\<forall>k t. store w' k = Some (Link t) \<longrightarrow> store w k = Some (Link t))"


text \<open>Notions for when a recursive copy succeeds: a directory at a path; nothing at or
  below a path; directories all the way above a path; and a source tree every listed
  entry of which is a readable file or a readable directory whose names differ.\<close>

definition dir_at :: "world \<Rightarrow> path \<Rightarrow> bool" where
  "dir_at w p = (\<exists>ns m. store w p = Some (Dir ns m))"





section \<open>Example worlds\<close>

definition meta0 :: meta where
  "meta0 = \<lparr>atime = 1, mtime = 2, birthtime = 3, readable = True, writable = True,
     executable = False\<rparr>"

text \<open>A root directory holding a file \<^verbatim>\<open>/f\<close> and a link \<^verbatim>\<open>/l\<close> to it.\<close>

definition w_link :: world where
  "w_link = \<lparr>store = (\<lambda>p. None)([] \<mapsto> Dir [''f'', ''l''] meta0, [''f''] \<mapsto> File ''hi'' meta0,
                 [''l''] \<mapsto> Link [''f'']),
     now = 100, nowISO = ''2024-01-01T00:00:00.000Z'', cwd = [], device = (\<lambda>p. 0), log = []\<rparr>"

text \<open>A tree \<^verbatim>\<open>/data\<close> with a file and a subdirectory holding a file, and an empty
  \<^verbatim>\<open>/tmp\<close>.\<close>

definition w_data :: world where
  "w_data = \<lparr>store = (\<lambda>p. None)([] \<mapsto> Dir [''data'', ''tmp''] meta0,
                 [''data''] \<mapsto> Dir [''a.txt'', ''sub''] meta0,
                 [''data'', ''a.txt''] \<mapsto> File ''hello'' meta0,
                 [''data'', ''sub''] \<mapsto> Dir [''b.txt''] meta0,
                 [''data'', ''sub'', ''b.txt''] \<mapsto> File ''worlds'' meta0,
                 [''tmp''] \<mapsto> Dir [] meta0),
     now = 100, nowISO = ''2024-01-01T00:00:00.000Z'', cwd = [], device = (\<lambda>p. 0), log = []\<rparr>"

text \<open>Confirmation required with the phrase \<^verbatim>\<open>DELETE\<close>, and a backup requested.\<close>

definition so_confirm :: safetyOptions where
  "so_confirm = \<lparr>so_recursive = True, requireConfirmation = True,
     confirmationText = Some ''DELETE'', maxFileSize = 0, so_createBackup = True,
     so_backupDirectory = None, skipIfNotExists = False\<rparr>"

text \<open>No filter set.\<close>

definition fo0 :: filterOptions where
  "fo0 = \<lparr>extensionFilter = [], namePattern = None, minSize = 0, maxSize = 0\<rparr>"

text \<open>A directory \<^verbatim>\<open>/data\<close> whose subdirectory \<^verbatim>\<open>locked\<close> may not be read, between two
  files.\<close>

definition meta_locked :: meta where
  "meta_locked = \<lparr>atime = 1, mtime = 2, birthtime = 3, readable = False, writable = False,
     executable = False\<rparr>"

definition w_locked :: world where
  "w_locked = \<lparr>store = (\<lambda>p. None)([] \<mapsto> Dir [''data''] meta0,
                 [''data''] \<mapsto> Dir [''a.txt'', ''locked'', ''z.txt''] meta0,
                 [''data'', ''a.txt''] \<mapsto> File ''hello'' meta0,
                 [''data'', ''locked''] \<mapsto> Dir [''c.txt''] meta_locked,
                 [''data'', ''locked'', ''c.txt''] \<mapsto> File ''secret'' meta0,
                 [''data'', ''z.txt''] \<mapsto> File ''zz'' meta0),
     now = 100, nowISO = ''2024-01-01T00:00:00.000Z'', cwd = [], device = (\<lambda>p. 0), log = []\<rparr>"

text \<open>The tree \<^verbatim>\<open>/data\<close> again, with an empty \<^verbatim>\<open>/mnt\<close> on another device.\<close>

definition w_two :: world where
  "w_two = \<lparr>store = (\<lambda>p. None)([] \<mapsto> Dir [''data'', ''tmp'', ''mnt''] meta0,
                 [''data''] \<mapsto> Dir [''a.txt'', ''sub''] meta0,
                 [''data'', ''a.txt''] \<mapsto> File ''hello'' meta0,
                 [''data'', ''sub''] \<mapsto> Dir [''b.txt''] meta0,
                 [''data'', ''sub'', ''b.txt''] \<mapsto> File ''worlds'' meta0,
                 [''tmp''] \<mapsto> Dir [] meta0,
                 [''mnt''] \<mapsto> Dir [] meta0),
     now = 100, nowISO = ''2024-01-01T00:00:00.000Z'', cwd = [],
     device = (\<lambda>p. if prefix [''mnt''] p then 1 else 0), log = []\<rparr>"


text \<open>No option set, for the copy and for the move node.\<close>

definition co0 :: copyOptions where
  "co0 = \<lparr>co_overwrite = False, co_preserveTimestamps = None, co_createDestDir = None,
     copyMode = None, co_recursive = None\<rparr>"

definition mo0 :: moveOptions where
  "mo0 = \<lparr>mo_overwrite = False, mo_createDestDir = None, moveMode = None, fallbackCopy = None,
     mo_createBackup = False, mo_backupDirectory = None\<rparr>"

text \<open>A move with a backup requested, and the parameters of a delete with the
  confirmation supplied.\<close>

definition mo_backup :: moveOptions where
  "mo_backup = mo0\<lparr>mo_createBackup := True\<rparr>"

definition ps_confirmed :: "string \<Rightarrow> string option" where
  "ps_confirmed = Map.empty(''confirmationProvided'' \<mapsto> ''DELETE'')"

section \<open>Properties of the filesystem calls\<close>

lemma follow_not_link:
  "follow n st p = Some q \<Longrightarrow> st q \<noteq> Some (Link t)"
proof (induction n arbitrary: p)
  case 0
  then show ?case
    by (subst (asm) follow.simps) (auto split: option.splits node.splits)
next
  case (Suc n)
  from Suc.prems show ?case
    by (subst (asm) follow.simps) (auto split: option.splits node.splits dest: Suc.IH)
qed

lemma node_at_not_link: "node_at w p = Inr nd \<Longrightarrow> nd \<noteq> Link t"
  unfolding node_at_def target_def
  by (auto split: option.splits sum.splits dest: follow_not_link)

lemma stat_never_symlink: "stat w p = Inr s \<Longrightarrow> \<not> isSymbolicLink s"
proof -
  assume a: "stat w p = Inr s"
  then obtain nd where nd: "node_at w p = Inr nd" and s: "s = stats_of nd"
    unfolding stat_def by (auto split: sum.splits)
  from node_at_not_link [OF nd] have "\<And>t. nd \<noteq> Link t" .
  with s show ?thesis by (cases nd) auto
qed

section \<open>The exists node and symbolic links\<close>

lemma w_link_exists:
  "fileExists w_link ''/l''
     \<lparr>checkType = None, includeDetails = True, checkAccess = [''readable''], resolveSymlinks = True\<rparr>
     \<lparr>onlyIfExists = False, includeInputData = False\<rparr>
   = Inr (Some \<lparr>r_path = [''l''], r_exists = True, r_pathExists = True,
          r_typeMatches = True, r_checkType = ''any'',
          r_details = Some \<lparr>d_type = ''file'', d_size = 2, d_isFile = True,
                d_isDirectory = False, d_isSymbolicLink = False, d_realPath = None\<rparr>,
          r_access = [(''readable'', True)]\<rparr>)"
  by (simp add: fileExists_def existsSync_def path_resolve_def resolve_step_def stat_def
      node_at_def target_def w_link_def follow.simps max_symlinks_def meta0_def realpath_def
      access_def or_default_def type_matches_def Let_def)

text \<open>
  Claim C10. The exists node reads the path with the link-following \<^verbatim>\<open>fs.stat\<close>, so
  \<^verbatim>\<open>stats.isSymbolicLink()\<close> is false whenever that call succeeds; whatever
  \<^verbatim>\<open>resolveSymlinks\<close> is, a record the node returns with details has no
  \<^verbatim>\<open>realPath\<close> and has \<^verbatim>\<open>isSymbolicLink\<close> false.
\<close>

theorem exists_never_sees_symlink:
  assumes "fileExists w filePath co oo = Inr (Some r)" and "r_details r = Some d"
  shows "(\<forall>s. stat w (path_resolve w filePath) = Inr s \<longrightarrow> \<not> isSymbolicLink s)
     \<and> d_realPath d = None \<and> \<not> d_isSymbolicLink d"
proof -
  have st: "\<And>s. stat w (path_resolve w filePath) = Inr s \<Longrightarrow> \<not> isSymbolicLink s"
    by (rule stat_never_symlink)
  from assms st show ?thesis
    by (auto simp: fileExists_def Let_def split: if_splits sum.splits option.splits)
qed

text \<open>On the link \<^verbatim>\<open>/l\<close>, with \<^verbatim>\<open>resolveSymlinks\<close> and details requested:
  \<^verbatim>\<open>lstat\<close> sees a link, the node reports a plain file and no real path.\<close>

theorem exists_never_sees_symlink_witness:
  "isSymbolicLink (stats_of (Link [''f'']))
   \<and> lstat w_link [''l''] = Inr (stats_of (Link [''f'']))
   \<and> fileExists w_link ''/l''
     \<lparr>checkType = None, includeDetails = True, checkAccess = [''readable''], resolveSymlinks = True\<rparr>
     \<lparr>onlyIfExists = False, includeInputData = False\<rparr>
   = Inr (Some \<lparr>r_path = [''l''], r_exists = True, r_pathExists = True,
          r_typeMatches = True, r_checkType = ''any'',
          r_details = Some \<lparr>d_type = ''file'', d_size = 2, d_isFile = True,
                d_isDirectory = False, d_isSymbolicLink = False, d_realPath = None\<rparr>,
          r_access = [(''readable'', True)]\<rparr>)
   \<and> d_realPath \<lparr>d_type = ''file'', d_size = 2, d_isFile = True,
                d_isDirectory = False, d_isSymbolicLink = False, d_realPath = None\<rparr> = None"
  using exists_never_sees_symlink [OF w_link_exists] w_link_exists
  by (simp add: lstat_def w_link_def)


section \<open>The confirmation gate of the delete node\<close>

lemmas path_defs = path_resolve_def resolve_step_def join_def dirname_def basename_def

lemmas read_defs = stat_def existsSync_def node_at_def target_def follow.simps max_symlinks_def
  readdir_def readFile_def

lemmas write_defs = mkdir_recursive_def copyFile_def write_file_def writeFile_def utimes_def
  unlink_def rmdir_def rename_def rename_errno_def moved_tree_def without_tree_def
  logged_def put_def add_name_def remove_name_def new_meta_def

lemma delete_refused:
  assumes "requireConfirmation so"
    and "getNodeParameter ps ''confirmationProvided'' [] \<noteq> or_default (confirmationText so) ''DELETE''"
  shows "snd (deleteFile w ps filePath deleteMode so) = w"
    and "fst (deleteFile w ps filePath deleteMode so) \<noteq> Inr (Deleted r)"
  using assms by (auto simp: deleteFile_def Let_def split: sum.splits)

lemma delete_refused_at_gate:
  assumes "requireConfirmation so"
    and "getNodeParameter ps ''confirmationProvided'' [] \<noteq> or_default (confirmationText so) ''DELETE''"
    and "filePath \<noteq> []" and "stat w (path_resolve w filePath) = Inr st"
    and "\<not> (deleteMode = ''file'' \<and> \<not> isFile st)"
    and "\<not> (deleteMode = ''directory'' \<and> \<not> isDirectory st)"
    and "\<not> (maxFileSize so \<noteq> 0 \<and> isFile st \<and> size st > maxFileSize so * 1024 * 1024)"
  shows "deleteFile w ps filePath deleteMode so
      = (Inl (ConfirmationRequired (or_default (confirmationText so) ''DELETE'')), w)"
  using assms by (auto simp: deleteFile_def Let_def existsSync_def stat_def split: sum.splits)

lemma or_default_nonempty: "d \<noteq> [] \<Longrightarrow> or_default v d \<noteq> []"
  by (auto simp: or_default_def split: option.splits)

lemma stat_w_data_a:
  "stat w_data (path_resolve w_data ''/data/a.txt'') = Inr (stats_of (File ''hello'' meta0))"
  by (simp add: path_defs read_defs w_data_def)

text \<open>With the confirmation supplied, the same deletion goes through: the file is backed
  up to \<^verbatim>\<open>/tmp\<close> and unlinked.\<close>

lemma delete_confirmed_example:
  "fst (deleteFile w_data (Map.empty(''confirmationProvided'' \<mapsto> ''DELETE'')) ''/data/a.txt''
      ''auto'' so_confirm)
   = Inr (Deleted \<lparr>dr_path = [''data'', ''a.txt''], dr_type = ''file'', dr_size = 5,
       dr_backupPath = Some [''tmp'', ''a.txt.backup.2024-01-01T00-00-00-000Z'']\<rparr>)"
  by (simp add: deleteFile_def delete_backup_def delete_perform_def backup_path_def
      timestamp_def or_default_def getNodeParameter_def so_confirm_def path_defs read_defs
      w_data_def meta0_def Let_def mkdir_recursive_def copyFile_def write_file_def unlink_def
      logged_def put_def add_name_def remove_name_def new_meta_def)

text \<open>
  Claim C6. When the delete node requires confirmation and the string supplied under
  \<^verbatim>\<open>confirmationProvided\<close> differs from the phrase in force (the configured
  \<^verbatim>\<open>confirmationText\<close>, or \<^verbatim>\<open>DELETE\<close> when that is empty or not set), the item leaves
  the filesystem as it was (nothing removed, no backup made) and never reports a deletion;
  an item that gets as far as the confirmation gate (the path exists and passes the mode
  and size checks) fails with the confirmation error.
\<close>

theorem delete_mismatch_refused:
  assumes "requireConfirmation so"
    and "getNodeParameter ps ''confirmationProvided'' [] \<noteq> or_default (confirmationText so) ''DELETE''"
  shows "snd (deleteFile w ps filePath deleteMode so) = w
     \<and> (\<forall>r. fst (deleteFile w ps filePath deleteMode so) \<noteq> Inr (Deleted r))
     \<and> (\<forall>st. filePath \<noteq> [] \<and> stat w (path_resolve w filePath) = Inr st
            \<and> \<not> (deleteMode = ''file'' \<and> \<not> isFile st)
            \<and> \<not> (deleteMode = ''directory'' \<and> \<not> isDirectory st)
            \<and> \<not> (maxFileSize so \<noteq> 0 \<and> isFile st \<and> size st > maxFileSize so * 1024 * 1024)
          \<longrightarrow> fst (deleteFile w ps filePath deleteMode so)
              = Inl (ConfirmationRequired (or_default (confirmationText so) ''DELETE'')))"
  using delete_refused [OF assms] delete_refused_at_gate [OF assms] by simp

theorem delete_mismatch_refused_witness:
  "requireConfirmation so_confirm
   \<and> getNodeParameter (Map.empty(''confirmationProvided'' \<mapsto> ''delete'')) ''confirmationProvided'' []
       \<noteq> or_default (confirmationText so_confirm) ''DELETE''
   \<and> deleteFile w_data (Map.empty(''confirmationProvided'' \<mapsto> ''delete'')) ''/data/a.txt'' ''auto''
         so_confirm
       = (Inl (ConfirmationRequired ''DELETE''), w_data)"
proof -
  have h1: "requireConfirmation so_confirm" by (simp add: so_confirm_def)
  have h2: "getNodeParameter (Map.empty(''confirmationProvided'' \<mapsto> ''delete''))
      ''confirmationProvided'' [] \<noteq> or_default (confirmationText so_confirm) ''DELETE''"
    by (simp add: getNodeParameter_def or_default_def so_confirm_def)
  from delete_mismatch_refused [OF h1 h2, of w_data "''/data/a.txt''" "''auto''"] stat_w_data_a
  have "deleteFile w_data (Map.empty(''confirmationProvided'' \<mapsto> ''delete'')) ''/data/a.txt''
      ''auto'' so_confirm = (Inl (ConfirmationRequired ''DELETE''), w_data)"
    by (simp add: prod_eq_iff so_confirm_def or_default_def)
  with h1 h2 show ?thesis by simp
qed

text \<open>
  Claim C9. The confirmation gate reads the supplied string under the name
  \<^verbatim>\<open>confirmationProvided\<close>, which is none of the properties the node declares, with the
  empty string as fallback, and compares it with a phrase that is never empty. So with
  confirmation required and no such parameter held by the host, the item changes nothing
  and never reports a deletion.
\<close>

theorem delete_needs_undeclared_parameter:
  assumes "requireConfirmation so" and "ps ''confirmationProvided'' = None"
  shows "''confirmationProvided'' \<notin> set (DeleteFile_properties @ safetyOptions_options)
     \<and> getNodeParameter ps ''confirmationProvided'' [] = []
     \<and> or_default (confirmationText so) ''DELETE'' \<noteq> []
     \<and> snd (deleteFile w ps filePath deleteMode so) = w
     \<and> (\<forall>r. fst (deleteFile w ps filePath deleteMode so) \<noteq> Inr (Deleted r))"
proof -
  have g: "getNodeParameter ps ''confirmationProvided'' [] = []"
    using assms(2) by (simp add: getNodeParameter_def)
  have d: "or_default (confirmationText so) ''DELETE'' \<noteq> []"
    by (rule or_default_nonempty) simp
  from g d have ne: "getNodeParameter ps ''confirmationProvided'' []
      \<noteq> or_default (confirmationText so) ''DELETE''" by simp
  have n: "''confirmationProvided'' \<notin> set (DeleteFile_properties @ safetyOptions_options)"
    by (simp add: DeleteFile_properties_def safetyOptions_options_def)
  from n g d delete_refused [OF assms(1) ne] show ?thesis by simp
qed

theorem delete_needs_undeclared_parameter_witness:
  "requireConfirmation so_confirm
   \<and> (Map.empty :: string \<Rightarrow> string option) ''confirmationProvided'' = None
   \<and> deleteFile w_data Map.empty ''/data/a.txt'' ''auto'' so_confirm
       = (Inl (ConfirmationRequired ''DELETE''), w_data)"
proof -
  have h1: "requireConfirmation so_confirm" by (simp add: so_confirm_def)
  have h2: "(Map.empty :: string \<Rightarrow> string option) ''confirmationProvided'' = None" by simp
  have e: "fst (deleteFile w_data Map.empty ''/data/a.txt'' ''auto'' so_confirm)
      = Inl (ConfirmationRequired ''DELETE'')"
    using stat_w_data_a
    by (simp add: deleteFile_def existsSync_def stat_def getNodeParameter_def or_default_def
        so_confirm_def Let_def split: sum.splits)
  from delete_needs_undeclared_parameter [OF h1 h2, of w_data "''/data/a.txt''" "''auto''"] e
  have "deleteFile w_data Map.empty ''/data/a.txt'' ''auto'' so_confirm
      = (Inl (ConfirmationRequired ''DELETE''), w_data)"
    by (simp add: prod_eq_iff)
  with h1 h2 show ?thesis by simp
qed


section \<open>The checksum of the file-info node\<close>

lemma md5_hello: "md5_hex ''hello'' = ''5d41402abc4b2a76b9719d911017c592''"
  by code_simp

lemma md5_worlds: "md5_hex ''worlds'' = ''248e17e74de8ec3baebce51002957a8d''"
  by code_simp

lemma placeholder_example:
  "FileInfo_calculateMd5Checksum w_data [''data'', ''a.txt''] = Inr ''md5-5-100''"
  by (simp add: FileInfo_calculateMd5Checksum_def read_defs w_data_def meta0_def show_nat.simps)

text \<open>
  Claim C8, as stated, fails: for the file \<^verbatim>\<open>/data/a.txt\<close> with content \<^verbatim>\<open>hello\<close> the
  node reports the MD5 digest of that content, \<^verbatim>\<open>5d41402abc4b2a76b9719d911017c592\<close>, and
  not the placeholder \<^verbatim>\<open>md5-5-100\<close> of the unused private method.
\<close>

theorem checksum_placeholder_counterexample:
  "readFile w_data [''data'', ''a.txt''] = Inr ''hello''
   \<and> md5_hex ''hello'' = ''5d41402abc4b2a76b9719d911017c592''
   \<and> fileInfoItem w_data ''/data/a.txt'' \<lparr>calculateChecksum = True, resolveRealPath = False\<rparr>
       = Inr \<lparr>fi_path = [''data'', ''a.txt''], fi_type = ''file'', fi_size = 5, fi_isFile = True,
           fi_isDirectory = False, fi_isSymbolicLink = False, fi_realPath = None,
           fi_realPathError = None, fi_checksum = Some ''5d41402abc4b2a76b9719d911017c592'',
           fi_checksumError = None\<rparr>
   \<and> FileInfo_calculateMd5Checksum w_data [''data'', ''a.txt''] = Inr ''md5-5-100''"
proof -
  have rd: "readFile w_data [''data'', ''a.txt''] = Inr ''hello''"
    by (simp add: read_defs w_data_def meta0_def)
  have item: "fileInfoItem w_data ''/data/a.txt'' \<lparr>calculateChecksum = True, resolveRealPath = False\<rparr>
       = Inr \<lparr>fi_path = [''data'', ''a.txt''], fi_type = ''file'', fi_size = 5, fi_isFile = True,
           fi_isDirectory = False, fi_isSymbolicLink = False, fi_realPath = None,
           fi_realPathError = None, fi_checksum = Some ''5d41402abc4b2a76b9719d911017c592'',
           fi_checksumError = None\<rparr>"
    by (simp add: fileInfoItem_def calculateMd5Checksum_def path_defs read_defs w_data_def
        meta0_def md5_hello)
  from rd item show ?thesis
    by (simp add: md5_hello placeholder_example)
qed

text \<open>
  Claim C8, amended. With \<^verbatim>\<open>calculateChecksum\<close> set, for every readable regular file
  that is not empty, the checksum the file-info node reports is the MD5 digest, in
  hexadecimal, of the file's whole content; it comes from the shared helper
  \<^verbatim>\<open>calculateMd5Checksum\<close>. The placeholder is a private method that is never called.
\<close>

theorem checksum_is_md5_of_content:
  assumes "fileInfoItem w filePath io = Inr r" and "calculateChecksum io"
    and "readFile w (path_resolve w filePath) = Inr c" and "c \<noteq> []"
  shows "fi_checksum r = Some (md5_hex c)"
  using assms
  by (auto simp: fileInfoItem_def Let_def calculateMd5Checksum_def readFile_def stat_def
      split: if_splits sum.splits node.splits)

lemma fileInfo_b_example:
  "fileInfoItem w_data ''data/sub/./b.txt'' \<lparr>calculateChecksum = True, resolveRealPath = False\<rparr>
     = Inr \<lparr>fi_path = [''data'', ''sub'', ''b.txt''], fi_type = ''file'', fi_size = 6,
         fi_isFile = True, fi_isDirectory = False, fi_isSymbolicLink = False, fi_realPath = None,
         fi_realPathError = None, fi_checksum = Some (md5_hex ''worlds''),
         fi_checksumError = None\<rparr>"
  by (simp add: fileInfoItem_def calculateMd5Checksum_def path_defs read_defs w_data_def meta0_def)

theorem checksum_is_md5_of_content_witness:
  "fileInfoItem w_data ''data/sub/./b.txt'' \<lparr>calculateChecksum = True, resolveRealPath = False\<rparr>
     = Inr \<lparr>fi_path = [''data'', ''sub'', ''b.txt''], fi_type = ''file'', fi_size = 6,
         fi_isFile = True, fi_isDirectory = False, fi_isSymbolicLink = False, fi_realPath = None,
         fi_realPathError = None, fi_checksum = Some (md5_hex ''worlds''),
         fi_checksumError = None\<rparr>
   \<and> calculateChecksum \<lparr>calculateChecksum = True, resolveRealPath = False\<rparr>
   \<and> readFile w_data (path_resolve w_data ''data/sub/./b.txt'') = Inr ''worlds''
   \<and> ''worlds'' \<noteq> []
   \<and> fi_checksum \<lparr>fi_path = [''data'', ''sub'', ''b.txt''], fi_type = ''file'', fi_size = 6,
         fi_isFile = True, fi_isDirectory = False, fi_isSymbolicLink = False, fi_realPath = None,
         fi_realPathError = None, fi_checksum = Some (md5_hex ''worlds''),
         fi_checksumError = None\<rparr> = Some ''248e17e74de8ec3baebce51002957a8d''"
proof -
  have rd: "readFile w_data (path_resolve w_data ''data/sub/./b.txt'') = Inr ''worlds''"
    by (simp add: path_defs read_defs w_data_def meta0_def)
  have opt: "calculateChecksum \<lparr>calculateChecksum = True, resolveRealPath = False\<rparr>" by simp
  have ne: "''worlds'' \<noteq> []" by simp
  from checksum_is_md5_of_content [OF fileInfo_b_example opt rd ne] fileInfo_b_example rd
  show ?thesis by (simp add: md5_worlds)
qed


section \<open>Listing files only\<close>

lemma stat_kind: "stat w p = Inr st \<Longrightarrow> \<not> (isFile st \<and> isDirectory st)"
  unfolding stat_def by (auto split: sum.splits) (metis node.exhaust stats.select_convs(1,2) stats_of.simps)


text \<open>In the mode \<^verbatim>\<open>files\<close> every entry returned is a regular file.\<close>

lemma list_files_mode:
  "list_loop n w d r h ''files'' fo items = Some (Inr files) \<Longrightarrow>
     \<forall>e \<in> set files. le_isFile e \<and> \<not> le_isDirectory e \<and> le_type e = ''file''"
proof (induction items arbitrary: files)
  case Nil
  then show ?case by simp
next
  case (Cons item rest)
  then show ?case
    by (auto simp: list_fileInfo_def split: sum.splits if_splits option.splits dest: stat_kind)
qed


text \<open>In the mode \<^verbatim>\<open>files\<close> the loop skips every directory before it gets to the
  recursive call, so the walk is the flat listing whatever \<^verbatim>\<open>recursive\<close> is.\<close>

lemma list_files_mode_flat:
  "list_loop n w d r h ''files'' fo items = list_loop 0 w d False h ''files'' fo items"
proof (induction items)
  case Nil
  then show ?case by simp
next
  case (Cons item rest)
  show ?case
  proof (cases "stat w (join d item)")
    case (Inl e)
    then show ?thesis by simp
  next
    case (Inr st)
    with stat_kind have k: "isFile st \<Longrightarrow> \<not> isDirectory st" by blast
    show ?thesis
    proof (cases "isFile st")
      case True
      with Inr Cons.IH k show ?thesis by (cases h) simp_all
    next
      case False
      with Inr Cons.IH show ?thesis by (cases h) simp_all
    qed
  qed
qed


text \<open>
  Claim C1 says that with \<^verbatim>\<open>listMode = files\<close> and \<^verbatim>\<open>recursive\<close> the files inside
  subdirectories are listed. The code at that input: \<^verbatim>\<open>/data\<close> holds \<^verbatim>\<open>a.txt\<close> and the
  directory \<^verbatim>\<open>sub\<close> with the readable file \<^verbatim>\<open>b.txt\<close>; the walk returns \<^verbatim>\<open>a.txt\<close> alone.
  In that mode the walk of any directory is the same with and without \<^verbatim>\<open>recursive\<close>.
\<close>

theorem list_files_mode_skips_nested:
  "stat w_data [''data'', ''sub''] = Inr (stats_of (Dir [''b.txt''] meta0))
   \<and> readFile w_data [''data'', ''sub'', ''b.txt''] = Inr ''worlds''
   \<and> list_getFilesRecursively 5 w_data [''data''] True False ''files'' fo0
     = Some (Inr [\<lparr>le_name = ''a.txt'', le_path = [''data'', ''a.txt''],
           le_type = ''file'', le_extension = ''.txt'', le_size = 5,
           le_modified = 2, le_isFile = True, le_isDirectory = False\<rparr>])
   \<and> list_getFilesRecursively (Suc n) w dirPath True includeHidden ''files'' fo
     = list_getFilesRecursively (Suc 0) w dirPath False includeHidden ''files'' fo"
proof -
  have flat: "list_getFilesRecursively (Suc n) w dirPath True includeHidden ''files'' fo
     = list_getFilesRecursively (Suc 0) w dirPath False includeHidden ''files'' fo"
    using list_files_mode_flat [of n w dirPath True includeHidden fo]
    by (simp split: sum.splits)
  have "stat w_data [''data'', ''sub''] = Inr (stats_of (Dir [''b.txt''] meta0))
   \<and> readFile w_data [''data'', ''sub'', ''b.txt''] = Inr ''worlds''
   \<and> list_getFilesRecursively 5 w_data [''data''] True False ''files'' fo0
     = Some (Inr [\<lparr>le_name = ''a.txt'', le_path = [''data'', ''a.txt''],
           le_type = ''file'', le_extension = ''.txt'', le_size = 5,
           le_modified = 2, le_isFile = True, le_isDirectory = False\<rparr>])"
    by (simp add: numeral_eq_Suc read_defs path_defs w_data_def meta0_def fo0_def
        startsWith_dot_def list_passesFileFilters_def list_fileInfo_def extname_def)
  with flat show ?thesis by (simp only: simp_thms)
qed

section \<open>A subdirectory that cannot be read\<close>

text \<open>
  Claim C3, as stated, fails for the walk of the list node: \<^verbatim>\<open>/data/locked\<close> cannot be
  read, and the walk over \<^verbatim>\<open>/data\<close> throws \<open>EACCES\<close> to its caller. The shared helper
  returns the three entries of \<^verbatim>\<open>/data\<close> there.
\<close>

theorem list_walk_propagates_counterexample:
  "readdir w_locked [''data'', ''locked''] = Inl EACCES
   \<and> list_getFilesRecursively 5 w_locked [''data''] True False ''both'' fo0 = Some (Inl EACCES)
   \<and> map we_name (getFilesRecursively w_locked [''data''] 10 0 [] [])
       = [''a.txt'', ''locked'', ''z.txt'']"
  by (simp add: numeral_eq_Suc read_defs path_defs w_locked_def meta0_def meta_locked_def
      fo0_def startsWith_dot_def list_passesFileFilters_def list_fileInfo_def extname_def
      some_pattern_def Let_def)

text \<open>
  Claim C3, amended. Let a directory entry be a subdirectory that cannot be read. In the
  shared helper the subtree yields no entries, the loop pushes the entry of the
  subdirectory itself (unless a pattern excludes it) and goes on with the remaining
  siblings, and nothing is thrown. In the walk of the list node, where the entry is
  descended into (\<^verbatim>\<open>recursive\<close>, not hidden away, mode other than \<^verbatim>\<open>files\<close>), the error
  of \<^verbatim>\<open>readdir\<close> is thrown out of the walk.
\<close>

theorem unreadable_subdirectory:
  assumes "stat w (join dirPath item) = Inr st" and "isDirectory st"
    and "readdir w (join dirPath item) = Inl e"
  shows "getFilesRecursively w (join dirPath item) maxDepth (Suc currentDepth) patterns excludePatterns = []
    \<and> (\<not> some_pattern excludePatterns item (join dirPath item) \<longrightarrow>
         walk_loop w dirPath maxDepth currentDepth patterns excludePatterns (item # rest)
         = (\<lparr>we_path = join dirPath item, we_name = item, we_isDirectory = True, we_stats = st\<rparr>
              # fst (walk_loop w dirPath maxDepth currentDepth patterns excludePatterns rest),
            snd (walk_loop w dirPath maxDepth currentDepth patterns excludePatterns rest)))
    \<and> ((includeHidden \<or> \<not> startsWith_dot item) \<and> listMode \<noteq> ''files'' \<longrightarrow>
         list_loop (Suc n) w dirPath True includeHidden listMode fo (item # rest) = Some (Inl e))"
proof -
  from assms stat_kind have nf: "\<not> isFile st" by blast
  have a: "getFilesRecursively w (join dirPath item) maxDepth (Suc currentDepth) patterns excludePatterns = []"
    using assms(3) by simp
  have b: "\<not> some_pattern excludePatterns item (join dirPath item) \<Longrightarrow>
         walk_loop w dirPath maxDepth currentDepth patterns excludePatterns (item # rest)
         = (\<lparr>we_path = join dirPath item, we_name = item, we_isDirectory = True, we_stats = st\<rparr>
              # fst (walk_loop w dirPath maxDepth currentDepth patterns excludePatterns rest),
            snd (walk_loop w dirPath maxDepth currentDepth patterns excludePatterns rest))"
    using assms a by (simp add: Let_def split: prod.splits)
  have c: "(includeHidden \<or> \<not> startsWith_dot item) \<and> listMode \<noteq> ''files'' \<Longrightarrow>
         list_loop (Suc n) w dirPath True includeHidden listMode fo (item # rest) = Some (Inl e)"
    using assms nf by auto
  from a b c show ?thesis by blast
qed


theorem unreadable_subdirectory_witness:
  "stat w_locked (join [''data''] ''locked'') = Inr (stats_of (Dir [''c.txt''] meta_locked))
   \<and> isDirectory (stats_of (Dir [''c.txt''] meta_locked))
   \<and> readdir w_locked (join [''data''] ''locked'') = Inl EACCES
   \<and> map we_name (fst (walk_loop w_locked [''data''] 10 0 [] [] [''locked'', ''z.txt'']))
       = [''locked'', ''z.txt'']
   \<and> snd (walk_loop w_locked [''data''] 10 0 [] [] [''locked'', ''z.txt'']) = None
   \<and> list_loop (Suc 0) w_locked [''data''] True False ''both'' fo0 [''locked'', ''z.txt'']
       = Some (Inl EACCES)"
proof -
  have h1: "stat w_locked (join [''data''] ''locked'') = Inr (stats_of (Dir [''c.txt''] meta_locked))"
    by (simp add: read_defs path_defs w_locked_def)
  have h2: "isDirectory (stats_of (Dir [''c.txt''] meta_locked))" by simp
  have h3: "readdir w_locked (join [''data''] ''locked'') = Inl EACCES"
    by (simp add: read_defs path_defs w_locked_def meta_locked_def)
  have r: "walk_loop w_locked [''data''] 10 0 [] [] [''z.txt'']
      = ([\<lparr>we_path = [''data'', ''z.txt''], we_name = ''z.txt'', we_isDirectory = False,
            we_stats = stats_of (File ''zz'' meta0)\<rparr>], None)"
    by (simp add: read_defs path_defs w_locked_def some_pattern_def)
  from unreadable_subdirectory [OF h1 h2 h3, of 10 0 "[]" "[]" "[''z.txt'']" False "''both''" 0 fo0]
    h1 h2 h3 r
  show ?thesis by (simp add: some_pattern_def startsWith_dot_def)
qed


section \<open>What the filesystem calls change\<close>

lemma log_put [simp]: "log (put w p n) = log w"
  by (simp add: put_def)

lemma log_add_name [simp]: "log (add_name w p) = log w"
  by (simp add: add_name_def split: option.splits node.splits)

lemma log_remove_name [simp]: "log (remove_name w p) = log w"
  by (simp add: remove_name_def split: option.splits node.splits)

lemma log_logged [simp]: "log (logged w e) = log w @ [e]"
  by (simp add: logged_def)

lemma mkdirs_log: "mkdirs w cur cs = (r, w1) \<Longrightarrow> log w1 = log w"
proof (induction cs arbitrary: w cur)
  case Nil
  then show ?case by simp
next
  case (Cons c cs)
  show ?case
  proof (cases "store w (cur @ [c])")
    case None
    with Cons.prems show ?thesis
      by (cases "store w cur") (auto split: node.splits dest: Cons.IH)
  next
    case (Some nd)
    with Cons.prems show ?thesis
      by (cases nd) (auto dest: Cons.IH)
  qed
qed

lemma mkdir_recursive_log:
  "mkdir_recursive w p = (Inr u, w1) \<Longrightarrow> log w1 = log w @ [EvMkdir p]"
  by (auto simp: mkdir_recursive_def split: prod.splits sum.splits dest: mkdirs_log)

lemma write_file_log: "write_file w p c ev = (Inr u, w1) \<Longrightarrow> log w1 = log w @ [ev]"
  by (auto simp: write_file_def split: sum.splits option.splits node.splits if_splits)




section \<open>The bytes a copy reports\<close>




section \<open>Worlds that keep files and links\<close>

lemma keeps_refl [simp]: "keeps w w"
  by (simp add: keeps_def)















lemma store_logged [simp]: "store (logged w e) = store w"
  by (simp add: logged_def)












section \<open>Copying a file\<close>





section \<open>The times of a copied directory\<close>

text \<open>
  Claim C2 says that a recursive copy with \<^verbatim>\<open>preserveTimestamps\<close> ends, for each
  directory, by setting the times of the destination directory to those of the source.
  The code at that input: \<^verbatim>\<open>/data\<close> (accessed at 1, modified at 2) is copied to the new
  \<^verbatim>\<open>/backup\<close> at time 100 with the default options, which preserve times. The node
  reports success with times preserved; the effects are the two directories made and,
  for each file, its copy and its times; no times are set on \<^verbatim>\<open>/backup\<close> or
  \<^verbatim>\<open>/backup/sub\<close>, and \<^verbatim>\<open>/backup\<close> is left with the times of the copy. The private
  method of the class, which is not called, ends with the times of both directories.
\<close>

theorem copy_directory_times_not_preserved:
  "fst (copyItem 5 w_data ''/data'' ''/backup'' co0)
     = Some (Inr \<lparr>cr_sourcePath = [''data''], cr_destinationPath = [''backup''],
           cr_sourceType = ''directory'', cr_copiedBytes = 11,
           cr_preservedTimestamps = True, cr_destSize = 4096\<rparr>)
   \<and> log (snd (copyItem 5 w_data ''/data'' ''/backup'' co0))
     = [EvMkdir [''backup''],
        EvCopyFile [''data'', ''a.txt''] [''backup'', ''a.txt''] 5,
        EvUtimes [''backup'', ''a.txt''] 1 2,
        EvMkdir [''backup'', ''sub''],
        EvCopyFile [''data'', ''sub'', ''b.txt''] [''backup'', ''sub'', ''b.txt''] 6,
        EvUtimes [''backup'', ''sub'', ''b.txt''] 1 2]
   \<and> stat w_data [''data'']
     = Inr \<lparr>isFile = False, isDirectory = True, isSymbolicLink = False, size = 4096,
          st_atime = 1, st_mtime = 2, st_birthtime = 3\<rparr>
   \<and> stat (snd (copyItem 5 w_data ''/data'' ''/backup'' co0)) [''backup'']
     = Inr \<lparr>isFile = False, isDirectory = True, isSymbolicLink = False, size = 4096,
          st_atime = 100, st_mtime = 100, st_birthtime = 100\<rparr>
   \<and> log (snd (CopyFile_copyDirectoryRecursive 5 w_data [''data''] [''backup''] True))
     = [EvMkdir [''backup''],
        EvCopyFile [''data'', ''a.txt''] [''backup'', ''a.txt''] 5,
        EvUtimes [''backup'', ''a.txt''] 1 2,
        EvMkdir [''backup'', ''sub''],
        EvCopyFile [''data'', ''sub'', ''b.txt''] [''backup'', ''sub'', ''b.txt''] 6,
        EvUtimes [''backup'', ''sub'', ''b.txt''] 1 2,
        EvUtimes [''backup'', ''sub''] 1 2,
        EvUtimes [''backup''] 1 2]"
  by (simp add: copyItem_def copy_perform_def co0_def not_false_def or_default_def Let_def
      numeral_eq_Suc write_defs path_defs read_defs w_data_def meta0_def dir_size_def)


section \<open>A backup of a directory\<close>

lemma mkdirs_remains: "mkdirs w cur cs = (r, w1) \<Longrightarrow> store w k \<noteq> None \<Longrightarrow> store w1 k \<noteq> None"
proof (induction cs arbitrary: w cur)
  case Nil
  then show ?case by simp
next
  case (Cons c cs)
  show ?case
  proof (cases "store w (cur @ [c])")
    case None
    show ?thesis
    proof (cases "store w cur")
      case N2: None
      with None Cons.prems show ?thesis by simp
    next
      case (Some nd)
      show ?thesis
      proof (cases nd)
        case (Dir ns m)
        let ?w1 = "add_name (put w (cur @ [c]) (Dir [] (new_meta w))) (cur @ [c])"
        from Dir Some None Cons.prems have m: "mkdirs ?w1 (cur @ [c]) cs = (r, w1)" by simp
        from Cons.prems(2) have "store ?w1 k \<noteq> None"
          by (auto simp: add_name_def put_def split: option.splits node.splits)
        from Cons.IH [OF m this] show ?thesis .
      qed (use None Some Cons.prems in auto)
    qed
  next
    case (Some nd)
    with Cons.prems show ?thesis
      by (cases nd) (auto dest: Cons.IH)
  qed
qed

lemma add_name_only_store: "add_name w p = w\<lparr>store := store (add_name w p)\<rparr>"
  by (simp add: add_name_def put_def split: option.splits node.splits)

lemma mkdirs_only_store: "mkdirs w cur cs = (r, w1) \<Longrightarrow> w1 = w\<lparr>store := store w1\<rparr>"
proof (induction cs arbitrary: w cur)
  case Nil
  then show ?case by simp
next
  case (Cons c cs)
  show ?case
  proof (cases "store w (cur @ [c])")
    case None
    show ?thesis
    proof (cases "store w cur")
      case N2: None
      with None Cons.prems show ?thesis by simp
    next
      case (Some nd)
      show ?thesis
      proof (cases nd)
        case (Dir ns m)
        let ?w1 = "add_name (put w (cur @ [c]) (Dir [] (new_meta w))) (cur @ [c])"
        from Dir Some None Cons.prems have m: "mkdirs ?w1 (cur @ [c]) cs = (r, w1)" by simp
        have "?w1 = w\<lparr>store := store ?w1\<rparr>"
          by (subst add_name_only_store) (simp add: put_def)
        with Cons.IH [OF m] show ?thesis by (metis world.update_convs(1) world.surjective)
      qed (use None Some Cons.prems in auto)
    qed
  next
    case (Some nd)
    with Cons.prems show ?thesis
      by (cases nd) (auto dest: Cons.IH)
  qed
qed

lemma mkdir_recursive_remains:
  "mkdir_recursive w p = (r, w1) \<Longrightarrow> store w k \<noteq> None \<Longrightarrow> store w1 k \<noteq> None"
  by (auto simp: mkdir_recursive_def split: prod.splits sum.splits dest: mkdirs_remains)

lemma mkdir_recursive_log_any:
  "mkdir_recursive w p = (r, w1) \<Longrightarrow> log w1 = log w \<or> log w1 = log w @ [EvMkdir p]"
  by (auto simp: mkdir_recursive_def split: prod.splits sum.splits dest: mkdirs_log)

lemma delete_backup_directory:
  assumes "so_createBackup so" and "stat w p = Inr st" and "isDirectory st"
    and "delete_backup w so p st = (r, w1)"
  shows "(r = Inl DirectoryBackupNotImplemented \<or> (\<exists>e. r = Inl (FsError e)))
     \<and> (\<forall>k. store w k \<noteq> None \<longrightarrow> store w1 k \<noteq> None)
     \<and> (log w1 = log w \<or> log w1 = log w @ [EvMkdir (dirname (backup_path w (so_backupDirectory so) p))])
     \<and> (fst (mkdir_recursive w (dirname (backup_path w (so_backupDirectory so) p))) = Inr ()
          \<longrightarrow> r = Inl DirectoryBackupNotImplemented)"
proof -
  from assms(2,3) stat_kind have nf: "\<not> isFile st" by blast
  obtain r0 w0 where m: "mkdir_recursive w (dirname (backup_path w (so_backupDirectory so) p)) = (r0, w0)"
    by (cases "mkdir_recursive w (dirname (backup_path w (so_backupDirectory so) p))") auto
  from assms(1,3,4) nf m have "w1 = w0" and "r = (case r0 of Inl e \<Rightarrow> Inl (FsError e) | Inr u \<Rightarrow> Inl DirectoryBackupNotImplemented)"
    by (auto simp: delete_backup_def Let_def split: sum.splits)
  with mkdir_recursive_remains [OF m] mkdir_recursive_log_any [OF m] m show ?thesis
    by (auto split: sum.splits)
qed

lemma delete_directory_with_backup:
  assumes "so_createBackup so" and "stat w (path_resolve w filePath) = Inr st" and "isDirectory st"
  shows "(\<exists>e. fst (deleteFile w ps filePath deleteMode so) = Inl e)
     \<and> (\<forall>k. store w k \<noteq> None \<longrightarrow> store (snd (deleteFile w ps filePath deleteMode so)) k \<noteq> None)"
proof -
  let ?p = "path_resolve w filePath"
  obtain r w1 where b: "delete_backup w so ?p st = (r, w1)"
    by (cases "delete_backup w so ?p st") auto
  from delete_backup_directory [OF assms b]
  have r: "r = Inl DirectoryBackupNotImplemented \<or> (\<exists>e. r = Inl (FsError e))"
    and k: "\<forall>k. store w k \<noteq> None \<longrightarrow> store w1 k \<noteq> None" by blast+
  from assms(2) have ex: "existsSync w ?p" by (auto simp: existsSync_def stat_def split: sum.splits)
  from r k b ex assms(2) show ?thesis
    by (auto simp: deleteFile_def Let_def)
qed

lemma move_backup_directory:
  assumes "mo_createBackup mo" and "stat w src = Inr st" and "isDirectory st"
    and "move_backup w mo src st = (r, w1)"
  shows "(r = Inr (Some (backup_path w (mo_backupDirectory mo) src)) \<or> (\<exists>e. r = Inl (FsError e)))
     \<and> (r = Inr (Some (backup_path w (mo_backupDirectory mo) src)) \<longrightarrow>
          log w1 = log w @ [EvMkdir (dirname (backup_path w (mo_backupDirectory mo) src)),
             EvWriteFile (info_path (backup_path w (mo_backupDirectory mo) src)) (backup_marker w src)])"
proof -
  from assms(2,3) stat_kind have nf: "\<not> isFile st" by blast
  let ?bp = "backup_path w (mo_backupDirectory mo) src"
  obtain r0 w0 where m: "mkdir_recursive w (dirname ?bp) = (r0, w0)"
    by (cases "mkdir_recursive w (dirname ?bp)") auto
  show ?thesis
  proof (cases r0)
    case (Inl e)
    with assms(1,3,4) nf m show ?thesis by (auto simp: move_backup_def Let_def)
  next
    case (Inr u)
    with m have l0: "log w0 = log w @ [EvMkdir (dirname ?bp)]" by (simp add: mkdir_recursive_log)
    from m have iso: "nowISO w0 = nowISO w"
      by (auto simp: mkdir_recursive_def logged_def split: prod.splits sum.splits
          dest: mkdirs_only_store [THEN arg_cong [where f = nowISO]])
    obtain r2 w2 where wf: "writeFile w0 (info_path ?bp) (backup_marker w0 src) = (r2, w2)"
      by (cases "writeFile w0 (info_path ?bp) (backup_marker w0 src)") auto
    show ?thesis
    proof (cases r2)
      case I2: (Inl e)
      with Inr assms(1,3,4) nf m wf show ?thesis by (auto simp: move_backup_def Let_def)
    next
      case R2: (Inr u2)
      with wf have "log w2 = log w0 @ [EvWriteFile (info_path ?bp) (backup_marker w0 src)]"
        by (auto simp: writeFile_def dest: write_file_log)
      with R2 Inr assms(1,3,4) nf m wf l0 iso show ?thesis
        by (auto simp: move_backup_def Let_def backup_marker_def)
    qed
  qed
qed



text \<open>
  Claim C4, as stated, fails for the move node: \<^verbatim>\<open>/data\<close> is a directory and is moved to
  \<^verbatim>\<open>/tmp/data\<close> with a backup requested; the item succeeds, having written the marker
  file next to where a backup would be, and the directory is moved.
\<close>

theorem move_directory_backup_counterexample:
  "fst (moveItem 5 w_two ''/data'' ''/tmp/data'' mo_backup)
     = Some (Inr \<lparr>mr_sourcePath = [''data''], mr_destinationPath = [''tmp'', ''data''],
          mr_sourceType = ''directory'', mr_size = 4096, mr_moveMethod = ''atomic'',
          mr_backupPath = Some [''tmp'', ''data.backup.2024-01-01T00-00-00-000Z'']\<rparr>)
   \<and> log (snd (moveItem 5 w_two ''/data'' ''/tmp/data'' mo_backup))
     = [EvMkdir [''tmp''],
        EvWriteFile [''tmp'', ''data.backup.2024-01-01T00-00-00-000Z.info'']
          (backup_marker w_two [''data'']),
        EvRename [''data''] [''tmp'', ''data'']]
   \<and> store (snd (moveItem 5 w_two ''/data'' ''/tmp/data'' mo_backup)) [''data''] = None
   \<and> store (snd (moveItem 5 w_two ''/data'' ''/tmp/data'' mo_backup)) [''tmp'', ''data'', ''a.txt'']
     = Some (File ''hello'' meta0)"
  by (simp add: moveItem_def move_backup_def move_perform_def backup_path_def timestamp_def
      info_path_def backup_marker_def mo_backup_def mo0_def not_false_def or_default_def Let_def
      write_defs path_defs read_defs w_two_def dir_size_def)


text \<open>
  Claim C4, amended. Let the target be a directory and a backup be requested. The delete
  node then fails the item and removes nothing: its backup step makes the backup
  directory and throws that directory backups are not implemented (or fails in making
  the backup directory). The move node makes the backup directory, writes the marker file
  \<^verbatim>\<open><backup path>.info\<close> with the original path, the time and a note, and goes on to
  the move; its backup step fails only when one of these two calls fails.
\<close>

theorem directory_backup_delete_refuses_move_marks:
  assumes "stat w p = Inr st" and "isDirectory st"
  shows "(so_createBackup so \<and> path_resolve w filePath = p \<longrightarrow>
            (\<exists>e. fst (deleteFile w ps filePath deleteMode so) = Inl e)
            \<and> (\<forall>k. store w k \<noteq> None
                  \<longrightarrow> store (snd (deleteFile w ps filePath deleteMode so)) k \<noteq> None))
     \<and> (so_createBackup so \<longrightarrow>
          (\<forall>r w1. delete_backup w so p st = (r, w1) \<longrightarrow>
             (r = Inl DirectoryBackupNotImplemented \<or> (\<exists>e. r = Inl (FsError e)))
             \<and> (\<forall>k. store w k \<noteq> None \<longrightarrow> store w1 k \<noteq> None)
             \<and> (log w1 = log w
                  \<or> log w1 = log w @ [EvMkdir (dirname (backup_path w (so_backupDirectory so) p))])
             \<and> (fst (mkdir_recursive w (dirname (backup_path w (so_backupDirectory so) p))) = Inr ()
                  \<longrightarrow> r = Inl DirectoryBackupNotImplemented)))
     \<and> (mo_createBackup mo \<longrightarrow>
          (\<forall>r w1. move_backup w mo p st = (r, w1) \<longrightarrow>
             (r = Inr (Some (backup_path w (mo_backupDirectory mo) p)) \<or> (\<exists>e. r = Inl (FsError e)))
             \<and> (r = Inr (Some (backup_path w (mo_backupDirectory mo) p)) \<longrightarrow>
                  log w1 = log w @ [EvMkdir (dirname (backup_path w (mo_backupDirectory mo) p)),
                     EvWriteFile (info_path (backup_path w (mo_backupDirectory mo) p))
                       (backup_marker w p)])))"
proof -
  have A: "so_createBackup so \<and> path_resolve w filePath = p \<longrightarrow>
            (\<exists>e. fst (deleteFile w ps filePath deleteMode so) = Inl e)
            \<and> (\<forall>k. store w k \<noteq> None
                  \<longrightarrow> store (snd (deleteFile w ps filePath deleteMode so)) k \<noteq> None)"
  proof
    assume h: "so_createBackup so \<and> path_resolve w filePath = p"
    with assms have "stat w (path_resolve w filePath) = Inr st" by simp
    from delete_directory_with_backup [OF _ this assms(2)] h
    show "(\<exists>e. fst (deleteFile w ps filePath deleteMode so) = Inl e)
            \<and> (\<forall>k. store w k \<noteq> None
                  \<longrightarrow> store (snd (deleteFile w ps filePath deleteMode so)) k \<noteq> None)"
      by blast
  qed
  have B: "so_createBackup so \<longrightarrow>
          (\<forall>r w1. delete_backup w so p st = (r, w1) \<longrightarrow>
             (r = Inl DirectoryBackupNotImplemented \<or> (\<exists>e. r = Inl (FsError e)))
             \<and> (\<forall>k. store w k \<noteq> None \<longrightarrow> store w1 k \<noteq> None)
             \<and> (log w1 = log w
                  \<or> log w1 = log w @ [EvMkdir (dirname (backup_path w (so_backupDirectory so) p))])
             \<and> (fst (mkdir_recursive w (dirname (backup_path w (so_backupDirectory so) p))) = Inr ()
                  \<longrightarrow> r = Inl DirectoryBackupNotImplemented))"
    by (intro impI allI) (rule delete_backup_directory [OF _ assms])
  have C: "mo_createBackup mo \<longrightarrow>
          (\<forall>r w1. move_backup w mo p st = (r, w1) \<longrightarrow>
             (r = Inr (Some (backup_path w (mo_backupDirectory mo) p)) \<or> (\<exists>e. r = Inl (FsError e)))
             \<and> (r = Inr (Some (backup_path w (mo_backupDirectory mo) p)) \<longrightarrow>
                  log w1 = log w @ [EvMkdir (dirname (backup_path w (mo_backupDirectory mo) p)),
                     EvWriteFile (info_path (backup_path w (mo_backupDirectory mo) p))
                       (backup_marker w p)]))"
    by (intro impI allI) (rule move_backup_directory [OF _ assms])
  show ?thesis by (rule conjI [OF A conjI [OF B C]])
qed


lemma delete_directory_example:
  "fst (deleteFile w_two ps_confirmed ''/data'' ''auto'' so_confirm) = Inl DirectoryBackupNotImplemented"
  by (simp add: deleteFile_def delete_backup_def backup_path_def timestamp_def
      getNodeParameter_def ps_confirmed_def so_confirm_def or_default_def Let_def
      write_defs path_defs read_defs w_two_def)

lemma move_backup_example:
  "move_backup w_two mo_backup [''data''] (stats_of (Dir [''a.txt'', ''sub''] meta0))
   = (Inr (Some (backup_path w_two (mo_backupDirectory mo_backup) [''data''])),
      snd (move_backup w_two mo_backup [''data''] (stats_of (Dir [''a.txt'', ''sub''] meta0))))"
  by (simp add: move_backup_def backup_path_def timestamp_def info_path_def backup_marker_def
      mo_backup_def mo0_def or_default_def Let_def write_defs path_defs read_defs w_two_def
      prod_eq_iff)

theorem directory_backup_delete_refuses_move_marks_witness:
  "stat w_two [''data''] = Inr (stats_of (Dir [''a.txt'', ''sub''] meta0))
   \<and> isDirectory (stats_of (Dir [''a.txt'', ''sub''] meta0))
   \<and> so_createBackup so_confirm
   \<and> path_resolve w_two ''/data'' = [''data'']
   \<and> fst (deleteFile w_two ps_confirmed ''/data'' ''auto'' so_confirm)
       = Inl DirectoryBackupNotImplemented
   \<and> store w_two [''data'', ''a.txt''] \<noteq> None
   \<and> store (snd (deleteFile w_two ps_confirmed ''/data'' ''auto'' so_confirm)) [''data'', ''a.txt'']
       \<noteq> None
   \<and> mo_createBackup mo_backup
   \<and> fst (move_backup w_two mo_backup [''data''] (stats_of (Dir [''a.txt'', ''sub''] meta0)))
       = Inr (Some [''tmp'', ''data.backup.2024-01-01T00-00-00-000Z''])
   \<and> log (snd (move_backup w_two mo_backup [''data''] (stats_of (Dir [''a.txt'', ''sub''] meta0))))
       = [EvMkdir [''tmp''],
          EvWriteFile [''tmp'', ''data.backup.2024-01-01T00-00-00-000Z.info'']
            (backup_marker w_two [''data''])]"
proof -
  let ?st = "stats_of (Dir [''a.txt'', ''sub''] meta0)"
  let ?mb = "move_backup w_two mo_backup [''data''] ?st"
  let ?bp = "backup_path w_two (mo_backupDirectory mo_backup) [''data'']"
  have h0: "stat w_two [''data''] = Inr ?st"
    by (simp add: read_defs w_two_def)
  have h1: "isDirectory ?st" by simp
  have h2: "so_createBackup so_confirm" by (simp add: so_confirm_def)
  have h3: "path_resolve w_two ''/data'' = [''data'']" by (simp add: path_defs)
  have h4: "store w_two [''data'', ''a.txt''] \<noteq> None" by (simp add: w_two_def)
  from directory_backup_delete_refuses_move_marks [OF h0 h1, of so_confirm "''/data''" ps_confirmed
      "''auto''"] h2 h3 h4
  have kept: "store (snd (deleteFile w_two ps_confirmed ''/data'' ''auto'' so_confirm)) [''data'', ''a.txt'']
       \<noteq> None" by blast
  have h5: "mo_createBackup mo_backup" by (simp add: mo_backup_def)
  have lw: "log w_two = []" by (simp add: w_two_def)
  have bp: "?bp = [''tmp'', ''data.backup.2024-01-01T00-00-00-000Z'']"
    by (simp add: backup_path_def timestamp_def mo_backup_def mo0_def or_default_def path_defs
        w_two_def)
  note marks = directory_backup_delete_refuses_move_marks [OF h0 h1, where mo = mo_backup,
      THEN conjunct2, THEN conjunct2]
  from marks [rule_format, OF h5 move_backup_example]
  have "log (snd ?mb) = log w_two @ [EvMkdir (dirname ?bp),
                     EvWriteFile (info_path ?bp) (backup_marker w_two [''data''])]" by simp
  then have lg: "log (snd ?mb) = [EvMkdir [''tmp''],
          EvWriteFile [''tmp'', ''data.backup.2024-01-01T00-00-00-000Z.info'']
            (backup_marker w_two [''data''])]"
    by (simp add: bp dirname_def info_path_def basename_def lw)
  from move_backup_example have mbv: "fst ?mb = Inr (Some [''tmp'', ''data.backup.2024-01-01T00-00-00-000Z''])"
    by (simp add: prod_eq_iff bp)
  from kept h0 h1 h2 h3 h4 delete_directory_example h5 mbv lg show ?thesis by simp
qed

section \<open>What a recursive copy changes and what it leaves at the destination\<close>

lemma no_new_links_refl [simp]: "no_new_links w w"
  by (simp add: no_new_links_def)

























section \<open>A recursive copy returns\<close>









section \<open>A recursive copy of a readable tree to a free place succeeds\<close>


lemma dir_at_logged [simp]: "dir_at (logged w e) k = dir_at w k"
  by (simp add: dir_at_def)



















section \<open>What a copy reports and leaves\<close>




section \<open>Moving\<close>





























end
